theory Spec2Isabelle
  imports Complex_Main "HOL-Library.Word"
begin

section \<open>MicroShop storefront: strings of the browser\<close>

text \<open>
  A JavaScript string is a sequence of 16-bit code units; \<open>length\<close>, \<open>slice\<close>,
  \<open>startsWith\<close>, \<open>trim\<close> and a regular expression without the \<open>u\<close> flag all work on
  code units. \<open>ascii\<close> writes a literal whose characters are all below 128.
\<close>

type_synonym jsstring = "16 word list"

definition ascii :: "string \<Rightarrow> jsstring" where
  "ascii s = map (\<lambda>c. of_nat (of_char c)) s"

text \<open>The class \<open>\d\<close> of a regular expression: the ten code units \<open>0\<close> to \<open>9\<close>.\<close>

definition isDigit :: "16 word \<Rightarrow> bool" where
  "isDigit c = (0x30 \<le> c \<and> c \<le> 0x39)"

text \<open>
  What \<open>String.prototype.trim\<close> strips: the WhiteSpace and LineTerminator code points
  of ECMAScript (tab, LF, VT, FF, CR, space, NBSP, U+1680, U+2000 to U+200A, U+2028,
  U+2029, U+202F, U+205F, U+3000, U+FEFF). All of them are single code units.
\<close>

definition isWhiteSpace :: "16 word \<Rightarrow> bool" where
  "isWhiteSpace c = (c \<in> set [0x09, 0x0A, 0x0B, 0x0C, 0x0D, 0x20, 0xA0, 0x1680,
     0x2000, 0x2001, 0x2002, 0x2003, 0x2004, 0x2005, 0x2006, 0x2007, 0x2008, 0x2009,
     0x200A, 0x2028, 0x2029, 0x202F, 0x205F, 0x3000, 0xFEFF])"

definition trim :: "jsstring \<Rightarrow> jsstring" where
  "trim s = rev (dropWhile isWhiteSpace (rev (dropWhile isWhiteSpace s)))"

definition startsWith :: "jsstring \<Rightarrow> jsstring \<Rightarrow> bool" where
  "startsWith s p = (take (length p) s = p)"

text \<open>\<open>s.slice(1)\<close>: the string without its first code unit (empty stays empty).\<close>

definition slice1 :: "jsstring \<Rightarrow> jsstring" where
  "slice1 s = drop 1 s"

text \<open>\<open>s.replace(/\D/g, "")\<close>: every code unit that is not a digit is deleted.\<close>

definition replace_nonDigits :: "jsstring \<Rightarrow> jsstring" where
  "replace_nonDigits s = filter isDigit s"

text \<open>A value is falsy as a string exactly when it is the empty string.\<close>

definition truthy :: "jsstring \<Rightarrow> bool" where
  "truthy s = (s \<noteq> [])"

section \<open>Payment page: phone normalisation and validation\<close>

text \<open>
  \<^verbatim>\<open>
  function normalizePhone(raw: string) {
    const trimmed = raw.trim();
    if (trimmed.startsWith("+")) {
      return "+" + trimmed.slice(1).replace(/\D/g, "");
    }
    return trimmed.replace(/\D/g, "");
  }
  function isValidPhone(phone: string) {
    const p = normalizePhone(phone);
    const digits = p.startsWith("+") ? p.slice(1) : p;
    return digits.length >= 9 && digits.length <= 15;
  }
  \<close>
\<close>

definition normalizePhone :: "jsstring \<Rightarrow> jsstring" where
  "normalizePhone raw =
     (let trimmed = trim raw in
      if startsWith trimmed (ascii ''+'')
      then ascii ''+'' @ replace_nonDigits (slice1 trimmed)
      else replace_nonDigits trimmed)"

definition isValidPhone :: "jsstring \<Rightarrow> bool" where
  "isValidPhone phone =
     (let p = normalizePhone phone;
          digits = (if startsWith p (ascii ''+'') then slice1 p else p)
      in length digits \<ge> 9 \<and> length digits \<le> 15)"

text \<open>The number of digit code units of a string.\<close>

definition digitCount :: "jsstring \<Rightarrow> nat" where
  "digitCount s = length (filter isDigit s)"

section \<open>JavaScript numbers and JSON values\<close>

text \<open>
  A JavaScript number is an IEEE double: not-a-number, the two infinities, or a finite
  value. Every finite double is a rational, and the operations the pages use
  (\<open>Math.floor\<close>, \<open>Math.max\<close>, comparison, \<open>===\<close>, truthiness) are exact, so a finite
  value is modelled by the rational it denotes; \<open>-0\<close> and \<open>+0\<close>, which those operations
  do not tell apart, are both \<open>Fin 0\<close>.
\<close>

datatype jsnum = NaN | PosInf | NegInf | Fin rat

text \<open>\<open>Number.isFinite\<close> on a number.\<close>

fun isFinite :: "jsnum \<Rightarrow> bool" where
  "isFinite (Fin r) = True"
| "isFinite n = False"

text \<open>\<open>a > b\<close>: false whenever an operand is not-a-number.\<close>

fun js_gt :: "jsnum \<Rightarrow> jsnum \<Rightarrow> bool" where
  "js_gt NaN b = False"
| "js_gt a NaN = False"
| "js_gt NegInf b = False"
| "js_gt a NegInf = True"
| "js_gt a PosInf = False"
| "js_gt PosInf b = True"
| "js_gt (Fin x) (Fin y) = (x > y)"

text \<open>\<open>a >= b\<close>: false whenever an operand is not-a-number.\<close>

fun js_ge :: "jsnum \<Rightarrow> jsnum \<Rightarrow> bool" where
  "js_ge NaN b = False"
| "js_ge a NaN = False"
| "js_ge a NegInf = True"
| "js_ge PosInf b = True"
| "js_ge NegInf b = False"
| "js_ge a PosInf = False"
| "js_ge (Fin x) (Fin y) = (x \<ge> y)"

text \<open>\<open>a === b\<close> on numbers: not-a-number equals nothing, itself included.\<close>

definition strict_eq :: "jsnum \<Rightarrow> jsnum \<Rightarrow> bool" where
  "strict_eq a b = (a \<noteq> NaN \<and> a = b)"

text \<open>A number is falsy exactly when it is zero or not-a-number; \<open>a || b\<close>.\<close>

definition num_truthy :: "jsnum \<Rightarrow> bool" where
  "num_truthy n = (n \<noteq> NaN \<and> n \<noteq> Fin 0)"

definition num_or :: "jsnum \<Rightarrow> jsnum \<Rightarrow> jsnum" where
  "num_or a b = (if num_truthy a then a else b)"

fun Math_floor :: "jsnum \<Rightarrow> jsnum" where
  "Math_floor (Fin r) = Fin (of_int \<lfloor>r\<rfloor>)"
| "Math_floor n = n"

text \<open>\<open>Math.max(a, b)\<close>: not-a-number if either argument is, else the larger.\<close>

definition Math_max :: "jsnum \<Rightarrow> jsnum \<Rightarrow> jsnum" where
  "Math_max a b = (if a = NaN \<or> b = NaN then NaN else if js_ge a b then a else b)"

text \<open>
  The values \<open>JSON.parse\<close> returns. An object is its list of own properties, whose
  keys \<open>JSON.parse\<close> has made distinct.
\<close>

datatype json =
    JNull
  | JBool bool
  | JNum jsnum
  | JStr jsstring
  | JArr "json list"
  | JObj "(jsstring \<times> json) list"

text \<open>
  \<open>x?.k\<close> for a property name \<open>k\<close> that no prototype defines (\<open>product_id\<close>, \<open>qty\<close>):
  the own property of an object, and \<open>undefined\<close> (\<open>None\<close>) for \<open>null\<close>, a primitive, an
  array, or an object without it.
\<close>

fun getProp :: "json \<Rightarrow> jsstring \<Rightarrow> json option" where
  "getProp (JObj kvs) k = map_of kvs k"
| "getProp x k = None"

text \<open>
  \<open>Number(v)\<close>. \<open>undefined\<close> gives not-a-number, \<open>null\<close> zero, a boolean 0 or 1, a number
  itself. For a string, an array or an object the platform parses the string form of the
  value, and throws a TypeError (\<open>None\<close>) when an object has no primitive form; that
  conversion is the parameter \<open>coerce\<close>.
\<close>

fun Number_js :: "(json \<Rightarrow> jsnum option) \<Rightarrow> json option \<Rightarrow> jsnum option" where
  "Number_js coerce None = Some NaN"
| "Number_js coerce (Some JNull) = Some (Fin 0)"
| "Number_js coerce (Some (JBool b)) = Some (Fin (if b then 1 else 0))"
| "Number_js coerce (Some (JNum n)) = Some n"
| "Number_js coerce (Some v) = coerce v"

text \<open>\<open>xs.map(f)\<close> where \<open>f\<close> may throw: the first throw ends the whole call.\<close>

fun map_try :: "('a \<Rightarrow> 'b option) \<Rightarrow> 'a list \<Rightarrow> 'b list option" where
  "map_try f [] = Some []"
| "map_try f (x # xs) =
     (case f x of
        None \<Rightarrow> None
      | Some y \<Rightarrow> (case map_try f xs of None \<Rightarrow> None | Some ys \<Rightarrow> Some (y # ys)))"

text \<open>\<open>!v\<close> for a value that is a string, \<open>null\<close> or \<open>undefined\<close>.\<close>

fun truthy_opt :: "jsstring option \<Rightarrow> bool" where
  "truthy_opt None = False"
| "truthy_opt (Some s) = truthy s"

section \<open>Cart page: the cart in local storage\<close>

record CartItem =
  product_id :: jsnum
  qty :: jsnum

text \<open>
  \<^verbatim>\<open>
  function readCart(): CartItem[] {
    try {
      const raw = localStorage.getItem("cart");
      if (!raw) return [];
      const parsed = JSON.parse(raw);
      if (!Array.isArray(parsed)) return [];
      return parsed
        .map((x: any) => ({ product_id: Number(x?.product_id), qty: Number(x?.qty) }))
        .filter((x) => Number.isFinite(x.product_id) && Number.isFinite(x.qty) && x.qty > 0);
    } catch { return []; }
  }
  \<close>
  \<open>JSON.parse\<close> is the parameter \<open>parse\<close>; \<open>None\<close> is its SyntaxError. Every throw inside
  the \<open>try\<close> ends in the \<open>catch\<close>, which returns the empty list.
\<close>

definition toCartItem :: "(json \<Rightarrow> jsnum option) \<Rightarrow> json \<Rightarrow> CartItem option" where
  "toCartItem coerce x =
     (case Number_js coerce (getProp x (ascii ''product_id'')) of
        None \<Rightarrow> None
      | Some p \<Rightarrow>
          (case Number_js coerce (getProp x (ascii ''qty'')) of
             None \<Rightarrow> None
           | Some q \<Rightarrow> Some \<lparr>product_id = p, qty = q\<rparr>))"

definition keepCartItem :: "CartItem \<Rightarrow> bool" where
  "keepCartItem x = (isFinite (product_id x) \<and> isFinite (qty x) \<and> js_gt (qty x) (Fin 0))"

definition readCart ::
  "(jsstring \<Rightarrow> json option) \<Rightarrow> (json \<Rightarrow> jsnum option) \<Rightarrow> (jsstring \<rightharpoonup> jsstring)
     \<Rightarrow> CartItem list" where
  "readCart parse coerce store =
     (case store (ascii ''cart'') of
        None \<Rightarrow> []
      | Some raw \<Rightarrow>
          if \<not> truthy raw then []
          else (case parse raw of
                  None \<Rightarrow> []
                | Some (JArr xs) \<Rightarrow>
                    (case map_try (toCartItem coerce) xs of
                       None \<Rightarrow> []
                     | Some mapped \<Rightarrow> filter keepCartItem mapped)
                | Some other \<Rightarrow> []))"

section \<open>The browser as seen by a page: storage and observable effects\<close>

text \<open>
  The three REST clients of \<open>../api\<close>, and the body of a POST: the payment form
  (\<open>PayPayload\<close>) or the order payload \<open>{items: [{product_id, qty}]}\<close>.
\<close>

datatype api = productApi | orderApi | paymentApi

record PayPayload =
  shipping_address :: jsstring
  phone_number :: jsstring

datatype body = PayBody PayPayload | OrderBody "CartItem list"

text \<open>
  Everything a handler does to the outside, in the order it does it: notifications
  (\<open>toast.error\<close>, \<open>toast.success\<close>), navigation (\<open>nav(path)\<close>; the flag is
  \<open>{replace: true}\<close>), reads and writes of \<open>localStorage\<close>, and requests with their
  \<open>Authorization\<close> header when the call passes one.
\<close>

datatype event =
    ToastError jsstring
  | ToastSuccess jsstring
  | Navigate jsstring bool
  | GetItem jsstring
  | SetItem jsstring jsstring
  | RemoveItem jsstring
  | HttpGet api jsstring "jsstring option"
  | HttpPost api jsstring body "jsstring option"

record world =
  storage :: "jsstring \<rightharpoonup> jsstring"
  trace :: "event list"

definition emit :: "event \<Rightarrow> world \<Rightarrow> world" where
  "emit e w = w\<lparr>trace := trace w @ [e]\<rparr>"

definition toast_error :: "jsstring \<Rightarrow> world \<Rightarrow> world" where
  "toast_error m w = emit (ToastError m) w"

definition toast_success :: "jsstring \<Rightarrow> world \<Rightarrow> world" where
  "toast_success m w = emit (ToastSuccess m) w"

definition nav :: "jsstring \<Rightarrow> world \<Rightarrow> world" where
  "nav path w = emit (Navigate path False) w"

definition nav_replace :: "jsstring \<Rightarrow> world \<Rightarrow> world" where
  "nav_replace path w = emit (Navigate path True) w"

definition ls_getItem :: "jsstring \<Rightarrow> world \<Rightarrow> jsstring option \<times> world" where
  "ls_getItem k w = (storage w k, emit (GetItem k) w)"

definition ls_setItem :: "jsstring \<Rightarrow> jsstring \<Rightarrow> world \<Rightarrow> world" where
  "ls_setItem k v w = emit (SetItem k v) (w\<lparr>storage := (storage w)(k \<mapsto> v)\<rparr>)"

definition ls_removeItem :: "jsstring \<Rightarrow> world \<Rightarrow> world" where
  "ls_removeItem k w = emit (RemoveItem k) (w\<lparr>storage := (storage w)(k := None)\<rparr>)"

text \<open>The events a handler added when it took the world from \<open>w\<close> to \<open>w'\<close>.\<close>

definition emitted :: "world \<Rightarrow> world \<Rightarrow> event list" where
  "emitted w w' = drop (length (trace w)) (trace w')"

fun isRequest :: "event \<Rightarrow> bool" where
  "isRequest (HttpGet a u h) = True"
| "isRequest (HttpPost a u b h) = True"
| "isRequest e = False"

text \<open>
  What a rejected request gives the \<open>catch\<close> block: \<open>e?.response?.status\<close> and
  \<open>e?.response?.data?.detail\<close>, each \<open>None\<close> when undefined (a network failure has no
  response at all). The detail is taken to be a string when present.
\<close>

record http_error =
  err_status :: "int option"
  err_detail :: "jsstring option"

text \<open>\<open>status === 401 || status === 403\<close>\<close>

definition isAuthStatus :: "http_error \<Rightarrow> bool" where
  "isAuthStatus e = (err_status e = Some 401 \<or> err_status e = Some 403)"

text \<open>\<open>e?.response?.data?.detail || fallback\<close>\<close>

definition detail_or :: "http_error \<Rightarrow> jsstring \<Rightarrow> jsstring" where
  "detail_or e fallback =
     (case err_detail e of
        None \<Rightarrow> fallback
      | Some d \<Rightarrow> if truthy d then d else fallback)"

text \<open>The header \<open>Authorization: `Bearer ${token}`\<close>.\<close>

definition bearer :: "jsstring \<Rightarrow> jsstring" where
  "bearer token = ascii ''Bearer '' @ token"

text \<open>
  \<^verbatim>\<open>
  const handleAuthError = () => {
    toast.error("Session expired. Please login again.");
    localStorage.removeItem("token");
    nav("/login");
  };
  \<close>
  The Payment page and the Payments page each define it, with the same body.
\<close>

definition handleAuthError :: "world \<Rightarrow> world" where
  "handleAuthError w =
     nav (ascii ''/login'')
       (ls_removeItem (ascii ''token'')
         (toast_error (ascii ''Session expired. Please login again.'') w))"

section \<open>Orders, and the Payment page\<close>

text \<open>
  \<^verbatim>\<open>
  type Order = { id: number; status: string; total: number;
                 items: { product_id: number; qty: number; unit_price: number }[] };
  \<close>
  Field names carry a prefix where two records of the source share a name.
\<close>

record OrderItem =
  oi_product_id :: jsnum
  oi_qty :: jsnum
  oi_unit_price :: jsnum

record Order =
  o_id :: jsnum
  o_status :: jsstring
  o_total :: jsnum
  o_items :: "OrderItem list"

text \<open>The state of the Payment component: \<open>order\<close>, \<open>loading\<close>, \<open>paying\<close>, \<open>address\<close>, \<open>phone\<close>.\<close>

record PaymentState =
  p_order :: "Order option"
  p_loading :: bool
  p_paying :: bool
  p_address :: jsstring
  p_phone :: jsstring

text \<open>The data of a successful \<open>POST /payments/{orderId}\<close>: \<open>{ok, payment_id}\<close>.\<close>

record PayResult =
  ok :: bool
  payment_id :: jsnum

text \<open>
  \<^verbatim>\<open>
  const getTokenOrRedirect = (): string | null => {
    const token = localStorage.getItem("token");
    if (!token) { toast.error("Please login first"); nav("/login"); return null; }
    return token;
  };
  \<close>
\<close>

definition getTokenOrRedirect :: "world \<Rightarrow> jsstring option \<times> world" where
  "getTokenOrRedirect w =
     (let (token, w1) = ls_getItem (ascii ''token'') w in
      if \<not> truthy_opt token
      then (None, nav (ascii ''/login'') (toast_error (ascii ''Please login first'') w1))
      else (token, w1))"

text \<open>
  \<open>loadOrder(id)\<close>. The outcome of \<open>GET /orders/{id}\<close> is the parameter \<open>resp\<close>:
  \<open>Inr\<close> the order, or \<open>Inl\<close> the error the \<open>catch\<close> sees.
  \<^verbatim>\<open>
    const token = getTokenOrRedirect();
    if (!token) return null;
    try {
      const res = await orderApi.get<Order>(`/orders/${id}`,
        { headers: { Authorization: `Bearer ${token}` } });
      setOrder(res.data);
      return res.data;
    } catch (e: any) {
      const status = e?.response?.status;
      if (status === 401 || status === 403) { handleAuthError(); return null; }
      toast.error(e?.response?.data?.detail || "Failed to load order");
      setOrder(null);
      return null;
    }
  \<close>
\<close>

definition loadOrder ::
  "jsstring \<Rightarrow> http_error + Order \<Rightarrow> PaymentState \<times> world
     \<Rightarrow> Order option \<times> PaymentState \<times> world" where
  "loadOrder ident resp sw =
     (let (s, w) = sw; (token, w1) = getTokenOrRedirect w in
      case token of
        None \<Rightarrow> (None, s, w1)
      | Some tok \<Rightarrow>
          (let w2 = emit (HttpGet orderApi (ascii ''/orders/'' @ ident) (Some (bearer tok))) w1 in
           case resp of
             Inr data \<Rightarrow> (Some data, s\<lparr>p_order := Some data\<rparr>, w2)
           | Inl e \<Rightarrow>
               if isAuthStatus e then (None, s, handleAuthError w2)
               else (None, s\<lparr>p_order := None\<rparr>,
                     toast_error (detail_or e (ascii ''Failed to load order'')) w2)))"

text \<open>\<open>const isPayable = useMemo(() => order?.status === "CREATED", [order]);\<close>\<close>

definition isPayable :: "PaymentState \<Rightarrow> bool" where
  "isPayable s = (case p_order s of None \<Rightarrow> False | Some ord \<Rightarrow> o_status ord = ascii ''CREATED'')"

text \<open>
  \<^verbatim>\<open>
  const validateForm = (): boolean => {
    if (!address.trim()) { toast.error("Please enter your shipping address"); return false; }
    if (!phone.trim()) { toast.error("Please enter your phone number"); return false; }
    if (!isValidPhone(phone)) {
      toast.error("Phone number is invalid (use 9-15 digits)"); return false; }
    return true;
  };
  \<close>
  The dash of the last message is U+2013.
\<close>

definition validateForm :: "PaymentState \<Rightarrow> world \<Rightarrow> bool \<times> world" where
  "validateForm s w =
     (if \<not> truthy (trim (p_address s))
      then (False, toast_error (ascii ''Please enter your shipping address'') w)
      else if \<not> truthy (trim (p_phone s))
      then (False, toast_error (ascii ''Please enter your phone number'') w)
      else if \<not> isValidPhone (p_phone s)
      then (False, toast_error
             (ascii ''Phone number is invalid (use 9'' @ [0x2013] @ ascii ''15 digits)'') w)
      else (True, w))"

text \<open>
  \<open>handlePay()\<close>, for the route parameter \<open>orderId\<close>. \<open>payResp\<close> is the outcome of the
  POST and \<open>reloadResp\<close> that of the refresh that follows a success.
  \<^verbatim>\<open>
    if (!orderId) return;
    const token = getTokenOrRedirect();
    if (!token) return;
    if (!validateForm()) return;
    const payload: PayPayload = {
      shipping_address: address.trim(), phone_number: normalizePhone(phone) };
    try {
      setPaying(true);
      const res = await paymentApi.post(`/payments/${orderId}`, payload,
        { headers: { Authorization: `Bearer ${token}` } });
      toast.success("Payment successful (party popper)");
      await loadOrder(orderId);
      nav("/payments", { replace: true });
      return res.data;
    } catch (e: any) {
      const status = e?.response?.status;
      if (status === 401 || status === 403) { handleAuthError(); return; }
      toast.error(e?.response?.data?.detail || "Payment failed");
    } finally { setPaying(false); }
  \<close>
  The success message ends in U+1F389, the surrogate pair D83C DF89.
\<close>

definition handlePay ::
  "jsstring option \<Rightarrow> http_error + PayResult \<Rightarrow> http_error + Order \<Rightarrow> PaymentState \<times> world
     \<Rightarrow> PayResult option \<times> PaymentState \<times> world" where
  "handlePay orderId payResp reloadResp sw =
     (let (s, w) = sw in
      case orderId of
        None \<Rightarrow> (None, s, w)
      | Some oid \<Rightarrow>
          if \<not> truthy oid then (None, s, w)
          else
           (let (token, w1) = getTokenOrRedirect w in
            case token of
              None \<Rightarrow> (None, s, w1)
            | Some tok \<Rightarrow>
               (let (valid, w2) = validateForm s w1 in
                if \<not> valid then (None, s, w2)
                else
                 (let payload = \<lparr>shipping_address = trim (p_address s),
                                 phone_number = normalizePhone (p_phone s)\<rparr>;
                      s1 = s\<lparr>p_paying := True\<rparr>;
                      w3 = emit (HttpPost paymentApi (ascii ''/payments/'' @ oid)
                                   (PayBody payload) (Some (bearer tok))) w2
                  in case payResp of
                       Inr res \<Rightarrow>
                         (let w4 = toast_success
                                     (ascii ''Payment successful '' @ [0xD83C, 0xDF89]) w3;
                              (r, s2, w5) = loadOrder oid reloadResp (s1, w4);
                              w6 = nav_replace (ascii ''/payments'') w5
                          in (Some res, s2\<lparr>p_paying := False\<rparr>, w6))
                     | Inl e \<Rightarrow>
                         if isAuthStatus e
                         then (None, s1\<lparr>p_paying := False\<rparr>, handleAuthError w3)
                         else (None, s1\<lparr>p_paying := False\<rparr>,
                               toast_error (detail_or e (ascii ''Payment failed'')) w3)))))"

text \<open>
  What the Payment component returns. The pay button is present only in the last
  branch and only when \<open>isPayable\<close>; it carries \<open>disabled={paying}\<close> and the label
  \<open>paying ? "Processing..." : "Pay Now"\<close> (the ellipsis is U+2026). Otherwise a notice
  says that the order is not in CREATED status.
\<close>

datatype PayAction = PayButton bool jsstring | NotCreatedNotice

datatype PaymentView =
    PV_Loading
  | PV_MissingOrderId
  | PV_OrderNotFound
  | PV_Form Order PayAction

definition Payment_render :: "jsstring option \<Rightarrow> PaymentState \<Rightarrow> PaymentView" where
  "Payment_render orderId s =
     (if p_loading s then PV_Loading
      else if \<not> truthy_opt orderId then PV_MissingOrderId
      else (case p_order s of
              None \<Rightarrow> PV_OrderNotFound
            | Some ord \<Rightarrow>
                PV_Form ord
                  (if isPayable s
                   then PayButton (p_paying s)
                          (if p_paying s then ascii ''Processing'' @ [0x2026]
                           else ascii ''Pay Now'')
                   else NotCreatedNotice)))"

section \<open>The OrderDetails page\<close>

record OrderDetailsState =
  od_loading :: bool
  od_order :: "Order option"

text \<open>
  \<open>load()\<close> of OrderDetails, for the route parameter \<open>orderId\<close>; \<open>resp\<close> is the outcome of
  the GET. The call passes no header, and its \<open>catch\<close> has one branch.
  \<^verbatim>\<open>
    const token = localStorage.getItem("token");
    if (!token) { toast.error("Please login first"); nav("/login"); return; }
    if (!orderId) { setOrder(null); setLoading(false); return; }
    try {
      setLoading(true);
      const res = await orderApi.get<Order>(`/orders/${orderId}`);
      setOrder(res.data);
    } catch (e: any) {
      toast.error(e?.response?.data?.detail || "Failed to load order");
      setOrder(null);
    } finally { setLoading(false); }
  \<close>
\<close>

definition OrderDetails_load ::
  "jsstring option \<Rightarrow> http_error + Order \<Rightarrow> OrderDetailsState \<times> world
     \<Rightarrow> OrderDetailsState \<times> world" where
  "OrderDetails_load orderId resp sw =
     (let (s, w) = sw; (token, w1) = ls_getItem (ascii ''token'') w in
      if \<not> truthy_opt token
      then (s, nav (ascii ''/login'') (toast_error (ascii ''Please login first'') w1))
      else (case orderId of
              None \<Rightarrow> (s\<lparr>od_order := None, od_loading := False\<rparr>, w1)
            | Some oid \<Rightarrow>
                if \<not> truthy oid then (s\<lparr>od_order := None, od_loading := False\<rparr>, w1)
                else
                 (let s1 = s\<lparr>od_loading := True\<rparr>;
                      w2 = emit (HttpGet orderApi (ascii ''/orders/'' @ oid) None) w1
                  in case resp of
                       Inr data \<Rightarrow> (s1\<lparr>od_order := Some data, od_loading := False\<rparr>, w2)
                     | Inl e \<Rightarrow>
                         (s1\<lparr>od_order := None, od_loading := False\<rparr>,
                          toast_error (detail_or e (ascii ''Failed to load order'')) w2))))"

text \<open>
  What OrderDetails renders under its heading: the loading line, "Order not found.", or
  the order with, when \<open>order.status === "CREATED"\<close>, the link to \<open>/payment/${order.id}\<close>
  around the "Go to Payment" button (\<open>Some\<close> the order id it links to).
\<close>

datatype OrderDetailsView =
    OD_Loading
  | OD_OrderNotFound
  | OD_Order Order "jsnum option"

definition OrderDetails_render :: "OrderDetailsState \<Rightarrow> OrderDetailsView" where
  "OrderDetails_render s =
     (if od_loading s then OD_Loading
      else (case od_order s of
              None \<Rightarrow> OD_OrderNotFound
            | Some ord \<Rightarrow>
                OD_Order ord
                  (if o_status ord = ascii ''CREATED'' then Some (o_id ord) else None)))"

section \<open>The Payments page (payment history)\<close>

record Payment =
  pm_id :: jsnum
  pm_order_id :: jsnum
  pm_user_id :: jsnum
  pm_amount :: jsnum
  pm_status :: jsstring

record PaymentsState =
  h_loading :: bool
  h_payments :: "Payment list"

text \<open>
  \<open>load()\<close> of Payments; \<open>resp\<close> is the outcome of \<open>GET /payments\<close>, whose data may be
  missing (\<open>res.data || []\<close>).
  \<^verbatim>\<open>
    const token = localStorage.getItem("token");
    if (!token) { toast.error("Please login first"); nav("/login"); return; }
    try {
      setLoading(true);
      const res = await paymentApi.get<Payment[]>("/payments",
        { headers: { Authorization: `Bearer ${token}` } });
      setPayments(res.data || []);
    } catch (e: any) {
      const status = e?.response?.status;
      if (status === 401 || status === 403) { handleAuthError(); return; }
      toast.error(e?.response?.data?.detail || "Failed to load payments");
    } finally { setLoading(false); }
  \<close>
\<close>

definition Payments_load ::
  "http_error + Payment list option \<Rightarrow> PaymentsState \<times> world \<Rightarrow> PaymentsState \<times> world" where
  "Payments_load resp sw =
     (let (s, w) = sw; (token, w1) = ls_getItem (ascii ''token'') w in
      case token of
        None \<Rightarrow> (s, nav (ascii ''/login'') (toast_error (ascii ''Please login first'') w1))
      | Some tok \<Rightarrow>
          if \<not> truthy tok
          then (s, nav (ascii ''/login'') (toast_error (ascii ''Please login first'') w1))
          else
           (let s1 = s\<lparr>h_loading := True\<rparr>;
                w2 = emit (HttpGet paymentApi (ascii ''/payments'') (Some (bearer tok))) w1
            in case resp of
                 Inr data \<Rightarrow>
                   (s1\<lparr>h_payments := (case data of None \<Rightarrow> [] | Some ps \<Rightarrow> ps),
                       h_loading := False\<rparr>, w2)
               | Inl e \<Rightarrow>
                   if isAuthStatus e then (s1\<lparr>h_loading := False\<rparr>, handleAuthError w2)
                   else (s1\<lparr>h_loading := False\<rparr>,
                         toast_error (detail_or e (ascii ''Failed to load payments'')) w2)))"

section \<open>The Cart page\<close>

record Product =
  pr_id :: jsnum
  pr_name :: jsstring
  pr_description :: "jsstring option"
  pr_price :: jsnum
  pr_image_url :: "jsstring option"
  pr_published :: "bool option"

text \<open>
  The state of the Cart component. \<open>productsById\<close> is a \<open>Record<number, Product>\<close>: a
  number is a key through its string form, which tells any two numbers apart that
  \<open>jsnum\<close> tells apart.
\<close>

record CartState =
  c_items :: "CartItem list"
  c_productsById :: "jsnum \<rightharpoonup> Product"
  c_loading :: bool
  c_checkingOut :: bool

text \<open>\<open>localStorage.setItem("cart", JSON.stringify(items))\<close>; \<open>JSON.stringify\<close> is a parameter.\<close>

definition writeCart :: "(CartItem list \<Rightarrow> jsstring) \<Rightarrow> CartItem list \<Rightarrow> world \<Rightarrow> world" where
  "writeCart stringify its w = ls_setItem (ascii ''cart'') (stringify its) w"

text \<open>
  The effect that fetches the catalogue; \<open>resp\<close> is the outcome of \<open>GET /products\<close>.
  \<^verbatim>\<open>
    try {
      setLoading(true);
      const res = await productApi.get<Product[]>("/products");
      const map: Record<number, Product> = {};
      for (const p of res.data) map[p.id] = p;
      setProductsById(map);
    } catch (e: any) {
      toast.error(e?.response?.data?.detail || "Failed to load products");
    } finally { setLoading(false); }
  \<close>
\<close>

definition Cart_loadProducts ::
  "http_error + Product list \<Rightarrow> CartState \<times> world \<Rightarrow> CartState \<times> world" where
  "Cart_loadProducts resp sw =
     (let (s, w) = sw;
          s1 = s\<lparr>c_loading := True\<rparr>;
          w1 = emit (HttpGet productApi (ascii ''/products'') None) w
      in case resp of
           Inr ps \<Rightarrow>
             (s1\<lparr>c_productsById := fold (\<lambda>p m. m(pr_id p \<mapsto> p)) ps Map.empty,
                 c_loading := False\<rparr>, w1)
         | Inl e \<Rightarrow>
             (s1\<lparr>c_loading := False\<rparr>,
              toast_error (detail_or e (ascii ''Failed to load products'')) w1))"

text \<open>
  \<open>enriched\<close> pairs every item with \<open>productsById[it.product_id]\<close>, and
  \<open>missing = enriched.filter((x) => !x.product)\<close> keeps the items whose product is
  undefined. Unit prices and line totals play no part in any handler.
\<close>

definition missing :: "CartState \<Rightarrow> CartItem list" where
  "missing s = filter (\<lambda>it. c_productsById s (product_id it) = None) (c_items s)"

text \<open>
  \<^verbatim>\<open>
  const setQty = (product_id: number, qty: number) => {
    const q = Math.max(1, Math.floor(qty || 1));
    const next = items.map((x) => (x.product_id === product_id ? { ...x, qty: q } : x));
    setItems(next);
    writeCart(next);
  };
  \<close>
\<close>

definition clampQty :: "jsnum \<Rightarrow> jsnum" where
  "clampQty q = Math_max (Fin 1) (Math_floor (num_or q (Fin 1)))"

definition setQty ::
  "(CartItem list \<Rightarrow> jsstring) \<Rightarrow> jsnum \<Rightarrow> jsnum \<Rightarrow> CartState \<times> world \<Rightarrow> CartState \<times> world" where
  "setQty stringify pid q sw =
     (let (s, w) = sw;
          q' = clampQty q;
          next = map (\<lambda>x. if strict_eq (product_id x) pid then x\<lparr>qty := q'\<rparr> else x) (c_items s)
      in (s\<lparr>c_items := next\<rparr>, writeCart stringify next w))"

text \<open>
  \<^verbatim>\<open>
  const removeItem = (product_id: number) => {
    const next = items.filter((x) => x.product_id !== product_id);
    setItems(next); writeCart(next); toast.success("Removed from cart");
  };
  const clearCart = () => {
    setItems([]); localStorage.removeItem("cart"); toast.success("Cart cleared");
  };
  \<close>
\<close>

definition removeItem ::
  "(CartItem list \<Rightarrow> jsstring) \<Rightarrow> jsnum \<Rightarrow> CartState \<times> world \<Rightarrow> CartState \<times> world" where
  "removeItem stringify pid sw =
     (let (s, w) = sw;
          next = filter (\<lambda>x. \<not> strict_eq (product_id x) pid) (c_items s)
      in (s\<lparr>c_items := next\<rparr>,
          toast_success (ascii ''Removed from cart'') (writeCart stringify next w)))"

definition clearCart :: "CartState \<times> world \<Rightarrow> CartState \<times> world" where
  "clearCart sw =
     (let (s, w) = sw in
      (s\<lparr>c_items := []\<rparr>,
       toast_success (ascii ''Cart cleared'') (ls_removeItem (ascii ''cart'') w)))"

text \<open>
  \<open>checkout()\<close>. \<open>resp\<close> is the outcome of \<open>POST /orders\<close>; of a success the handler uses
  only the text that \<open>${res.data?.id}\<close> produces, which is what \<open>Inr\<close> carries.
  \<^verbatim>\<open>
    if (!items.length) return toast.error("Cart is empty");
    const token = localStorage.getItem("token");
    if (!token) { toast.error("Please login first"); nav("/login"); return; }
    const missing = enriched.filter((x) => !x.product);
    if (missing.length) {
      toast.error("Some items are unavailable (refresh products and try again)");
      return;
    }
    try {
      setCheckingOut(true);
      const payload = { items: items.map((i) => ({ product_id: i.product_id, qty: i.qty })) };
      const res = await orderApi.post("/orders", payload);
      localStorage.removeItem("cart");
      setItems([]);
      toast.success(`Order created #${res.data?.id}`);
      nav(`/orders/${res.data?.id}`);
    } catch (e: any) {
      toast.error(e?.response?.data?.detail || "Checkout failed");
    } finally { setCheckingOut(false); }
  \<close>
\<close>

definition checkout ::
  "http_error + jsstring \<Rightarrow> CartState \<times> world \<Rightarrow> CartState \<times> world" where
  "checkout resp sw =
     (let (s, w) = sw in
      if length (c_items s) = 0 then (s, toast_error (ascii ''Cart is empty'') w)
      else
       (let (token, w1) = ls_getItem (ascii ''token'') w in
        if \<not> truthy_opt token
        then (s, nav (ascii ''/login'') (toast_error (ascii ''Please login first'') w1))
        else if length (missing s) \<noteq> 0
        then (s, toast_error
                  (ascii ''Some items are unavailable (refresh products and try again)'') w1)
        else
         (let s1 = s\<lparr>c_checkingOut := True\<rparr>;
              payload = map (\<lambda>i. \<lparr>product_id = product_id i, qty = qty i\<rparr>) (c_items s);
              w2 = emit (HttpPost orderApi (ascii ''/orders'') (OrderBody payload) None) w1
          in case resp of
               Inr id_text \<Rightarrow>
                 (s1\<lparr>c_items := [], c_checkingOut := False\<rparr>,
                  nav (ascii ''/orders/'' @ id_text)
                    (toast_success (ascii ''Order created #'' @ id_text)
                      (ls_removeItem (ascii ''cart'') w2)))
             | Inl e \<Rightarrow>
                 (s1\<lparr>c_checkingOut := False\<rparr>,
                  toast_error (detail_or e (ascii ''Checkout failed'')) w2))))"

section \<open>Reading a rendered page, and the outcome of an error\<close>

text \<open>
  The "Go to Payment" link of a rendered OrderDetails page (\<open>Some\<close> the order id it
  leads to), the action area of a rendered Payment page, and whether that area holds the
  pay button.
\<close>

fun goToPaymentLink :: "OrderDetailsView \<Rightarrow> jsnum option" where
  "goToPaymentLink (OD_Order ord link) = link"
| "goToPaymentLink v = None"

fun payAction :: "PaymentView \<Rightarrow> PayAction option" where
  "payAction (PV_Form ord act) = Some act"
| "payAction v = None"

fun isPayButton :: "PayAction option \<Rightarrow> bool" where
  "isPayButton (Some (PayButton disabled label)) = True"
| "isPayButton a = False"

text \<open>
  A handler that took the world from \<open>w\<close> to \<open>w'\<close> sent a request when a GET or a POST
  is among the events it added. \<open>endsWith es suffix\<close>: the last events of \<open>es\<close> are
  exactly \<open>suffix\<close>.
\<close>

definition requestSent :: "world \<Rightarrow> world \<Rightarrow> bool" where
  "requestSent w w' = (\<exists>e \<in> set (emitted w w'). isRequest e)"

definition endsWith :: "event list \<Rightarrow> event list \<Rightarrow> bool" where
  "endsWith es suffix =
     (length suffix \<le> length es \<and> drop (length es - length suffix) es = suffix)"

text \<open>
  The handler logged the user out when the token is gone from local storage and the
  last two things the handler did were to remove it and to navigate to \<open>/login\<close>, so
  that the page ends at \<open>/login\<close>. After a payment that went through, \<open>handlePay\<close> goes on
  to \<open>nav("/payments", {replace: true})\<close> whatever the refresh did ("optional refresh
  (don't block redirect)"): there the log-out is followed by that navigation, and the
  page ends at \<open>/payments\<close>. The handler notified \<open>m\<close> when it raised the error
  notification \<open>m\<close>.
\<close>

definition loggedOut :: "world \<Rightarrow> world \<Rightarrow> bool" where
  "loggedOut w w' =
     (storage w' (ascii ''token'') = None
      \<and> endsWith (emitted w w')
            [RemoveItem (ascii ''token''), Navigate (ascii ''/login'') False])"

definition loggedOutThenPayments :: "world \<Rightarrow> world \<Rightarrow> bool" where
  "loggedOutThenPayments w w' =
     (storage w' (ascii ''token'') = None
      \<and> endsWith (emitted w w')
            [RemoveItem (ascii ''token''), Navigate (ascii ''/login'') False,
             Navigate (ascii ''/payments'') True])"

definition notified :: "world \<Rightarrow> world \<Rightarrow> jsstring \<Rightarrow> bool" where
  "notified w w' m = (ToastError m \<in> set (emitted w w'))"

text \<open>A POST among the events; the form of the Payment page as \<open>validateForm\<close> accepts it.\<close>

definition isPost :: "event \<Rightarrow> bool" where
  "isPost e = (case e of HttpPost a u b h \<Rightarrow> True | _ \<Rightarrow> False)"

definition formValid :: "PaymentState \<Rightarrow> bool" where
  "formValid s = (truthy (trim (p_address s)) \<and> truthy (trim (p_phone s)) \<and> isValidPhone (p_phone s))"

text \<open>The request \<open>handlePay\<close> sends for order \<open>oid\<close> with token \<open>tok\<close> from state \<open>s\<close>.\<close>

definition payRequest :: "jsstring \<Rightarrow> jsstring \<Rightarrow> PaymentState \<Rightarrow> event" where
  "payRequest oid tok s =
     HttpPost paymentApi (ascii ''/payments/'' @ oid)
       (PayBody \<lparr>shipping_address = trim (p_address s),
                 phone_number = normalizePhone (p_phone s)\<rparr>)
       (Some (bearer tok))"

text \<open>\<open>checkout\<close> gets as far as its request: items, a token, and no missing product.\<close>

definition checkout_ready :: "CartState \<Rightarrow> world \<Rightarrow> bool" where
  "checkout_ready s w =
     (c_items s \<noteq> [] \<and> truthy_opt (storage w (ascii ''token'')) \<and> missing s = [])"

section \<open>The specification's wording, and concrete inputs\<close>

text \<open>
  The quantity the specification asks \<open>setQty\<close> to store, in its own words: the floor of
  the requested value, clamped to at least 1; a value that is not a number gives 1.
\<close>

definition floor_clamped :: "jsnum \<Rightarrow> jsnum" where
  "floor_clamped q =
     (case q of
        Fin r \<Rightarrow> Fin (max 1 (of_int \<lfloor>r\<rfloor>))
      | PosInf \<Rightarrow> PosInf
      | NegInf \<Rightarrow> Fin 1
      | NaN \<Rightarrow> Fin 1)"

text \<open>
  A stored cart, \<open>[{"product_id":3,"qty":2},null,{"product_id":5,"qty":4}]\<close>, and what
  \<open>JSON.parse\<close> makes of it, of \<open>null\<close> and of the malformed \<open>{oops\<close>; \<open>ex_parse\<close> is
  \<open>JSON.parse\<close> on these three texts.
\<close>

definition quoted :: "string \<Rightarrow> jsstring" where
  "quoted s = [0x22] @ ascii s @ [0x22]"

definition ex_cart_raw :: jsstring where
  "ex_cart_raw =
     ascii ''[{'' @ quoted ''product_id'' @ ascii '':3,'' @ quoted ''qty'' @ ascii '':2},null,{''
       @ quoted ''product_id'' @ ascii '':5,'' @ quoted ''qty'' @ ascii '':4}]''"

definition ex_cart_json :: json where
  "ex_cart_json = JArr
     [JObj [(ascii ''product_id'', JNum (Fin 3)), (ascii ''qty'', JNum (Fin 2))],
      JNull,
      JObj [(ascii ''product_id'', JNum (Fin 5)), (ascii ''qty'', JNum (Fin 4))]]"

definition ex_parse :: "jsstring \<Rightarrow> json option" where
  "ex_parse r =
     (if r = ex_cart_raw then Some ex_cart_json
      else if r = ascii ''null'' then Some JNull
      else None)"

definition ex_coerce :: "json \<Rightarrow> jsnum option" where
  "ex_coerce v = Some NaN"

definition ex_item :: CartItem where
  "ex_item = \<lparr>product_id = Fin 3, qty = Fin 2\<rparr>"

definition ex_stringify :: "CartItem list \<Rightarrow> jsstring" where
  "ex_stringify its = ascii ''[...]''"

text \<open>
  The cart of those two items, and a browser that holds a token and the stored cart and
  has done nothing yet.
\<close>

definition ex_cart_state :: CartState where
  "ex_cart_state = \<lparr>c_items = [\<lparr>product_id = Fin 3, qty = Fin 2\<rparr>,
                                \<lparr>product_id = Fin 5, qty = Fin 4\<rparr>],
                     c_productsById = Map.empty, c_loading = False, c_checkingOut = False\<rparr>"

definition ex_world :: world where
  "ex_world = \<lparr>storage = [ascii ''token'' \<mapsto> ascii ''t0k3n'', ascii ''cart'' \<mapsto> ex_cart_raw],
                trace = []\<rparr>"

text \<open>
  The catalogue, the cart once the catalogue is loaded, three error responses (a
  network failure has no response), an order in status CREATED, and the states of the
  other pages.
\<close>

definition ex_products :: "Product list" where
  "ex_products =
     [\<lparr>pr_id = Fin 3, pr_name = ascii ''Lollipop'', pr_description = None,
       pr_price = Fin (3 / 2), pr_image_url = None, pr_published = Some True\<rparr>,
      \<lparr>pr_id = Fin 5, pr_name = ascii ''Gummy bears'', pr_description = None,
       pr_price = Fin 2, pr_image_url = None, pr_published = Some True\<rparr>]"

definition ex_cart_ready :: CartState where
  "ex_cart_ready = fst (Cart_loadProducts (Inr ex_products) (ex_cart_state, ex_world))"

definition ex_error_400 :: http_error where
  "ex_error_400 = \<lparr>err_status = Some 400, err_detail = Some (ascii ''Out of stock'')\<rparr>"

definition ex_error_network :: http_error where
  "ex_error_network = \<lparr>err_status = None, err_detail = None\<rparr>"

definition ex_error_401 :: http_error where
  "ex_error_401 = \<lparr>err_status = Some 401, err_detail = Some (ascii ''Not authenticated'')\<rparr>"

definition ex_order :: Order where
  "ex_order = \<lparr>o_id = Fin 7, o_status = ascii ''CREATED'', o_total = Fin 11,
                o_items = [\<lparr>oi_product_id = Fin 3, oi_qty = Fin 2, oi_unit_price = Fin (3 / 2)\<rparr>,
                           \<lparr>oi_product_id = Fin 5, oi_qty = Fin 4, oi_unit_price = Fin 2\<rparr>]\<rparr>"

definition ex_pay_state :: PaymentState where
  "ex_pay_state = \<lparr>p_order = Some ex_order, p_loading = False, p_paying = False,
                    p_address = ascii '' 12 Candy Lane '', p_phone = ascii ''+84 90 123 4567''\<rparr>"

definition ex_od_state :: OrderDetailsState where
  "ex_od_state = \<lparr>od_loading = True, od_order = None\<rparr>"

definition ex_history_state :: PaymentsState where
  "ex_history_state = \<lparr>h_loading = False, h_payments = []\<rparr>"

definition ex_pay_result :: PayResult where
  "ex_pay_result = \<lparr>ok = True, payment_id = Fin 1\<rparr>"

section \<open>Facts about the string helpers\<close>

lemma ascii_plus: "ascii ''+'' = [0x2B]"
  by (simp add: ascii_def)

lemma plus_not_digit: "\<not> isDigit 0x2B"
  by (simp add: isDigit_def)

lemma plus_not_space: "\<not> isWhiteSpace 0x2B"
  by (simp add: isWhiteSpace_def)

lemma space_not_digit: "isWhiteSpace c \<Longrightarrow> \<not> isDigit c"
  by (auto simp: isWhiteSpace_def isDigit_def)

lemma digit_not_space: "isDigit c \<Longrightarrow> \<not> isWhiteSpace c"
  using space_not_digit by blast

lemma filter_digit_dropWhile:
  "filter isDigit (dropWhile isWhiteSpace xs) = filter isDigit xs"
  by (induction xs) (simp_all add: space_not_digit)

lemma filter_digit_trim: "filter isDigit (trim s) = filter isDigit s"
proof -
  have "filter isDigit (trim s) = rev (filter isDigit (rev (dropWhile isWhiteSpace s)))"
    by (simp add: trim_def rev_filter [symmetric] filter_digit_dropWhile)
  also have "\<dots> = filter isDigit (dropWhile isWhiteSpace s)"
    by (simp add: rev_filter [symmetric])
  finally show ?thesis
    by (simp add: filter_digit_dropWhile)
qed

lemma startsWith_plus: "startsWith s (ascii ''+'') = (\<exists>t. s = 0x2B # t)"
  by (cases s) (auto simp: startsWith_def ascii_plus)

lemma dropWhile_no_space:
  "\<forall>c \<in> set xs. \<not> isWhiteSpace c \<Longrightarrow> dropWhile isWhiteSpace xs = xs"
  by (cases xs) simp_all

lemma trim_no_space: "\<forall>c \<in> set xs. \<not> isWhiteSpace c \<Longrightarrow> trim xs = xs"
  by (simp add: trim_def dropWhile_no_space)

lemma trim_digits: "trim (filter isDigit xs) = filter isDigit xs"
  by (rule trim_no_space) (simp add: digit_not_space)

lemma trim_plus_digits: "trim (0x2B # filter isDigit xs) = 0x2B # filter isDigit xs"
  by (rule trim_no_space) (auto simp: digit_not_space plus_not_space)

lemma digits_not_plus: "\<not> startsWith (filter isDigit xs) (ascii ''+'')"
proof
  assume "startsWith (filter isDigit xs) (ascii ''+'')"
  then obtain t where t: "filter isDigit xs = 0x2B # t"
    by (auto simp: startsWith_plus)
  have "0x2B \<in> set (filter isDigit xs)"
    unfolding t by simp
  then show False
    by (simp add: plus_not_digit)
qed

text \<open>
  The shape of every normalised phone: an optional \<open>+\<close>, kept exactly when the trimmed
  input starts with one, followed by the digits of the input in their order.
\<close>

lemma normalizePhone_shape:
  "normalizePhone s =
     (if startsWith (trim s) (ascii ''+'') then ascii ''+'' else []) @ filter isDigit s"
proof (cases "startsWith (trim s) (ascii ''+'')")
  case True
  then obtain t where t: "trim s = 0x2B # t"
    by (auto simp: startsWith_plus)
  have "filter isDigit t = filter isDigit (trim s)"
    by (simp add: t plus_not_digit)
  then have "filter isDigit t = filter isDigit s"
    by (simp add: filter_digit_trim)
  with True t show ?thesis
    by (simp add: normalizePhone_def replace_nonDigits_def slice1_def)
next
  case False
  then show ?thesis
    by (simp add: normalizePhone_def replace_nonDigits_def filter_digit_trim)
qed

lemma isValidPhone_count:
  "isValidPhone s = (9 \<le> digitCount s \<and> digitCount s \<le> 15)"
proof (cases "startsWith (trim s) (ascii ''+'')")
  case True
  then have "normalizePhone s = 0x2B # filter isDigit s"
    by (simp add: normalizePhone_shape ascii_plus)
  then show ?thesis
    by (simp add: isValidPhone_def Let_def startsWith_plus slice1_def digitCount_def)
next
  case False
  then have "normalizePhone s = filter isDigit s"
    by (simp add: normalizePhone_shape)
  then show ?thesis
    by (simp add: isValidPhone_def Let_def digits_not_plus digitCount_def)
qed

lemma digitCount_normalizePhone: "digitCount (normalizePhone s) = digitCount s"
  by (simp add: normalizePhone_shape digitCount_def ascii_plus plus_not_digit)

lemma normalizePhone_idem: "normalizePhone (normalizePhone s) = normalizePhone s"
proof (cases "startsWith (trim s) (ascii ''+'')")
  case True
  then have n: "normalizePhone s = 0x2B # filter isDigit s"
    by (simp add: normalizePhone_shape ascii_plus)
  have "startsWith (trim (normalizePhone s)) (ascii ''+'')"
    by (simp add: n trim_plus_digits startsWith_plus)
  then have "normalizePhone (normalizePhone s) = 0x2B # filter isDigit (normalizePhone s)"
    by (simp add: normalizePhone_shape [of "normalizePhone s"] ascii_plus)
  then show ?thesis
    by (simp add: n plus_not_digit)
next
  case False
  then have n: "normalizePhone s = filter isDigit s"
    by (simp add: normalizePhone_shape)
  have "\<not> startsWith (trim (normalizePhone s)) (ascii ''+'')"
    by (simp add: n trim_digits digits_not_plus)
  then have "normalizePhone (normalizePhone s) = filter isDigit (normalizePhone s)"
    by (simp add: normalizePhone_shape [of "normalizePhone s"])
  then show ?thesis
    by (simp add: n)
qed

section \<open>Claims about the phone functions\<close>

text \<open>
  C1. For every input string, \<open>normalizePhone\<close> removes every code unit that is not a
  digit and keeps a leading \<open>+\<close> if and only if the trimmed input starts with \<open>+\<close>: the
  result is that optional \<open>+\<close> followed by the digits of the input, in order. In
  particular \<open>"090-123-4567"\<close> becomes \<open>"0901234567"\<close> and \<open>"+84 90 123 4567"\<close> becomes
  \<open>"+84901234567"\<close>.
\<close>

theorem C1_normalizePhone:
  "normalizePhone s =
     (if startsWith (trim s) (ascii ''+'') then ascii ''+'' else []) @ filter isDigit s
   \<and> startsWith (normalizePhone s) (ascii ''+'') = startsWith (trim s) (ascii ''+'')
   \<and> normalizePhone (ascii ''090-123-4567'') = ascii ''0901234567''
   \<and> normalizePhone (ascii ''+84 90 123 4567'') = ascii ''+84901234567''"
proof -
  have shape: "normalizePhone s =
      (if startsWith (trim s) (ascii ''+'') then ascii ''+'' else []) @ filter isDigit s"
    by (rule normalizePhone_shape)
  have lead: "startsWith (normalizePhone s) (ascii ''+'') = startsWith (trim s) (ascii ''+'')"
  proof (cases "startsWith (trim s) (ascii ''+'')")
    case True
    then show ?thesis
      by (simp add: shape ascii_plus startsWith_def)
  next
    case False
    then show ?thesis
      by (simp add: shape digits_not_plus)
  qed
  have e1: "normalizePhone (ascii ''090-123-4567'') = ascii ''0901234567''"
    by (simp add: normalizePhone_def trim_def startsWith_def slice1_def replace_nonDigits_def
        ascii_def isWhiteSpace_def isDigit_def)
  have e2: "normalizePhone (ascii ''+84 90 123 4567'') = ascii ''+84901234567''"
    by (simp add: normalizePhone_def trim_def startsWith_def slice1_def replace_nonDigits_def
        ascii_def isWhiteSpace_def isDigit_def)
  from shape lead e1 e2 show ?thesis
    by blast
qed

text \<open>
  C2. For every input string, \<open>isValidPhone\<close> is true exactly when the number of digits
  of the normalised form (a leading \<open>+\<close> is not a digit and is not counted) is at least
  9 and at most 15; \<open>"12345"\<close> is rejected.
\<close>

theorem C2_isValidPhone:
  "isValidPhone s =
     (9 \<le> digitCount (normalizePhone s) \<and> digitCount (normalizePhone s) \<le> 15)
   \<and> \<not> isValidPhone (ascii ''12345'')"
proof -
  have "\<not> isValidPhone (ascii ''12345'')"
    by (simp add: isValidPhone_count digitCount_def ascii_def isDigit_def)
  then show ?thesis
    by (simp add: isValidPhone_count digitCount_normalizePhone)
qed

text \<open>
  C10. \<open>normalizePhone\<close> is idempotent, and validation does not change under
  normalisation: \<open>isValidPhone s = isValidPhone (normalizePhone s)\<close> for every \<open>s\<close>.
\<close>

theorem C10_normalize_idempotent:
  "normalizePhone (normalizePhone s) = normalizePhone s
   \<and> isValidPhone s = isValidPhone (normalizePhone s)"
  by (simp add: normalizePhone_idem isValidPhone_count digitCount_normalizePhone)

section \<open>Facts about the cart\<close>

lemmas world_defs = emit_def toast_error_def toast_success_def nav_def nav_replace_def
  ls_getItem_def ls_setItem_def ls_removeItem_def

lemma readCart_cases:
  "readCart parse coerce store = []
   \<or> (\<exists>mapped. readCart parse coerce store = filter keepCartItem mapped)"
  by (auto simp: readCart_def split: option.split json.split)

lemma readCart_kept:
  assumes "x \<in> set (readCart parse coerce store)"
  shows "keepCartItem x"
proof -
  from readCart_cases [of parse coerce store] assms
  obtain mapped where "x \<in> set (filter keepCartItem mapped)"
    by auto
  then show ?thesis
    by simp
qed

lemma isFinite_iff: "isFinite n = (\<exists>r. n = Fin r)"
  by (cases n) simp_all

lemma emitted_append: "trace w' = trace w @ es \<Longrightarrow> emitted w w' = es"
  by (simp add: emitted_def)

lemma clampQty_floor_clamped: "clampQty q = floor_clamped q"
proof (cases q)
  case (Fin r)
  show ?thesis
  proof (cases "r = 0")
    case True
    with Fin show ?thesis
      by (simp add: clampQty_def floor_clamped_def num_or_def num_truthy_def Math_max_def)
  next
    case False
    with Fin show ?thesis
      by (auto simp: clampQty_def floor_clamped_def num_or_def num_truthy_def Math_max_def
          max_def floor_eq_iff)
  qed
qed (simp_all add: clampQty_def floor_clamped_def num_or_def num_truthy_def Math_max_def)

lemma clampQty_ge_1: "js_ge (clampQty q) (Fin 1)"
  by (cases q) (simp_all add: clampQty_floor_clamped floor_clamped_def)

lemma clampQty_nonpositive: "r \<le> 0 \<Longrightarrow> clampQty (Fin r) = Fin 1"
proof -
  assume "r \<le> 0"
  then have "\<lfloor>r\<rfloor> \<le> 0"
    by (simp add: floor_le_zero)
  then have "(of_int \<lfloor>r\<rfloor> :: rat) \<le> 1"
    by (metis of_int_le_1_iff order_trans zero_le_one)
  then have "max 1 (of_int \<lfloor>r\<rfloor> :: rat) = 1"
    by (rule max_absorb1)
  then show ?thesis
    by (simp only: clampQty_floor_clamped floor_clamped_def jsnum.case)
qed

lemma setQty_items:
  "fst (setQty stringify pid q (s, w)) =
     s\<lparr>c_items := map (\<lambda>x. if strict_eq (product_id x) pid then x\<lparr>qty := clampQty q\<rparr> else x)
                      (c_items s)\<rparr>"
  by (simp add: setQty_def Let_def)

lemma setQty_storage:
  "storage (snd (setQty stringify pid q (s, w))) (ascii ''cart'') =
     Some (stringify (c_items (fst (setQty stringify pid q (s, w)))))"
  by (simp add: setQty_def Let_def writeCart_def world_defs)

lemma checkout_empty:
  "c_items s = [] \<Longrightarrow>
   checkout resp (s, w) = (s, w\<lparr>trace := trace w @ [ToastError (ascii ''Cart is empty'')]\<rparr>)"
  by (simp add: checkout_def world_defs)

section \<open>Claims about the cart\<close>

text \<open>
  C9. Whatever local storage holds under \<open>cart\<close> (nothing, text that does not parse, a
  value that is not an array, or an array of arbitrary values), \<open>readCart\<close> returns a list
  (every throw inside it ends in its \<open>catch\<close>) in which every item has a finite
  \<open>product_id\<close> and a finite \<open>qty\<close> greater than 0; an absent, unparsable or non-array
  value gives the empty list.
\<close>

theorem C9_readCart:
  "(\<forall>x \<in> set (readCart parse coerce store).
      (\<exists>p. product_id x = Fin p) \<and> (\<exists>q. qty x = Fin q \<and> q > 0))
   \<and> (store (ascii ''cart'') = None \<longrightarrow> readCart parse coerce store = [])
   \<and> (\<forall>raw. store (ascii ''cart'') = Some raw \<and> parse raw = None
         \<longrightarrow> readCart parse coerce store = [])
   \<and> (\<forall>raw v. store (ascii ''cart'') = Some raw \<and> parse raw = Some v \<and> (\<forall>xs. v \<noteq> JArr xs)
         \<longrightarrow> readCart parse coerce store = [])"
proof -
  have kept: "(\<exists>p. product_id x = Fin p) \<and> (\<exists>q. qty x = Fin q \<and> q > 0)"
    if "x \<in> set (readCart parse coerce store)" for x
  proof -
    from that have k: "keepCartItem x"
      by (rule readCart_kept)
    then obtain p q where pq: "product_id x = Fin p" "qty x = Fin q"
      by (auto simp: keepCartItem_def isFinite_iff)
    with k have "q > 0"
      by (simp add: keepCartItem_def)
    with pq show ?thesis
      by simp
  qed
  have absent: "store (ascii ''cart'') = None \<longrightarrow> readCart parse coerce store = []"
    by (simp add: readCart_def)
  have bad: "\<forall>raw. store (ascii ''cart'') = Some raw \<and> parse raw = None
         \<longrightarrow> readCart parse coerce store = []"
    by (simp add: readCart_def)
  have nonarr: "\<forall>raw v. store (ascii ''cart'') = Some raw \<and> parse raw = Some v \<and> (\<forall>xs. v \<noteq> JArr xs)
         \<longrightarrow> readCart parse coerce store = []"
    by (auto simp: readCart_def split: json.split)
  have all: "\<forall>x \<in> set (readCart parse coerce store).
      (\<exists>p. product_id x = Fin p) \<and> (\<exists>q. qty x = Fin q \<and> q > 0)"
    using kept by (intro ballI)
  show ?thesis
    using all absent bad nonarr by (intro conjI)
qed


lemmas ex_defs = ex_cart_raw_def ex_cart_json_def ex_parse_def ex_coerce_def ex_item_def
  quoted_def

theorem C9_readCart_witness:
  "ex_item \<in> set (readCart ex_parse ex_coerce [ascii ''cart'' \<mapsto> ex_cart_raw])
   \<and> (\<exists>p. product_id ex_item = Fin p) \<and> (\<exists>q. qty ex_item = Fin q \<and> q > 0)
   \<and> Map.empty (ascii ''cart'') = (None :: jsstring option)
   \<and> readCart ex_parse ex_coerce Map.empty = []
   \<and> ex_parse (ascii ''{oops'') = None
   \<and> readCart ex_parse ex_coerce [ascii ''cart'' \<mapsto> ascii ''{oops''] = []
   \<and> ex_parse (ascii ''null'') = Some JNull
   \<and> readCart ex_parse ex_coerce [ascii ''cart'' \<mapsto> ascii ''null''] = []"
proof -
  have run: "readCart ex_parse ex_coerce [ascii ''cart'' \<mapsto> ex_cart_raw] =
      [ex_item, \<lparr>product_id = Fin 5, qty = Fin 4\<rparr>]"
    by (simp add: readCart_def toCartItem_def keepCartItem_def truthy_def ex_defs ascii_def)
  then have mem: "ex_item \<in> set (readCart ex_parse ex_coerce [ascii ''cart'' \<mapsto> ex_cart_raw])"
    by simp
  with C9_readCart [of ex_parse ex_coerce "[ascii ''cart'' \<mapsto> ex_cart_raw]"]
  have fin: "(\<exists>p. product_id ex_item = Fin p) \<and> (\<exists>q. qty ex_item = Fin q \<and> q > 0)"
    by blast
  have absent: "readCart ex_parse ex_coerce Map.empty = []"
    using C9_readCart [of ex_parse ex_coerce Map.empty] by simp
  have p1: "ex_parse (ascii ''{oops'') = None"
    by (simp add: ex_defs ascii_def)
  have bad: "readCart ex_parse ex_coerce [ascii ''cart'' \<mapsto> ascii ''{oops''] = []"
    using C9_readCart [of ex_parse ex_coerce "[ascii ''cart'' \<mapsto> ascii ''{oops'']"] p1
    by simp
  have p2: "ex_parse (ascii ''null'') = Some JNull"
    by (simp add: ex_defs ascii_def)
  have nonarr: "readCart ex_parse ex_coerce [ascii ''cart'' \<mapsto> ascii ''null''] = []"
    using C9_readCart [of ex_parse ex_coerce "[ascii ''cart'' \<mapsto> ascii ''null'']"] p2
    by simp
  from mem fin absent p1 bad p2 nonarr show ?thesis
    by simp
qed

text \<open>
  C6. For every product id and every requested quantity, \<open>setQty\<close> stores, in the items
  with that product id and in no other, the floor of the value clamped to at least 1
  (\<open>clampQty\<close>, which is \<open>floor_clamped\<close>); 0, a negative value and not-a-number give
  exactly 1. The stored quantity is at least 1, so a cart whose quantities are all at
  least 1 stays so, and the list written to local storage is the new list.
\<close>

theorem C6_setQty:
  assumes run: "setQty stringify pid q (s, w) = (s', w')"
  shows "length (c_items s') = length (c_items s)
    \<and> (\<forall>i < length (c_items s).
          product_id (c_items s' ! i) = product_id (c_items s ! i)
          \<and> qty (c_items s' ! i) =
              (if strict_eq (product_id (c_items s ! i)) pid then clampQty q
               else qty (c_items s ! i)))
    \<and> storage w' (ascii ''cart'') = Some (stringify (c_items s'))
    \<and> clampQty q = floor_clamped q
    \<and> clampQty (Fin 0) = Fin 1
    \<and> clampQty NaN = Fin 1
    \<and> (\<forall>r. r < 0 \<longrightarrow> clampQty (Fin r) = Fin 1)
    \<and> js_ge (clampQty q) (Fin 1)
    \<and> ((\<forall>x \<in> set (c_items s). js_ge (qty x) (Fin 1))
         \<longrightarrow> (\<forall>x \<in> set (c_items s'). js_ge (qty x) (Fin 1)))"
proof -
  from run have s': "s' = fst (setQty stringify pid q (s, w))"
    and w': "w' = snd (setQty stringify pid q (s, w))"
    by simp_all
  have items: "c_items s' =
      map (\<lambda>x. if strict_eq (product_id x) pid then x\<lparr>qty := clampQty q\<rparr> else x) (c_items s)"
    by (simp add: s' setQty_items)
  have len: "length (c_items s') = length (c_items s)"
    by (simp add: items)
  have nth: "\<forall>i < length (c_items s).
          product_id (c_items s' ! i) = product_id (c_items s ! i)
          \<and> qty (c_items s' ! i) =
              (if strict_eq (product_id (c_items s ! i)) pid then clampQty q
               else qty (c_items s ! i))"
    by (simp add: items)
  have st: "storage w' (ascii ''cart'') = Some (stringify (c_items s'))"
    unfolding s' w' by (rule setQty_storage)
  have zero: "clampQty (Fin 0) = Fin 1"
    by (simp add: clampQty_nonpositive)
  have nan: "clampQty NaN = Fin 1"
    by (simp add: clampQty_floor_clamped floor_clamped_def)
  have neg: "\<forall>r. r < 0 \<longrightarrow> clampQty (Fin r) = Fin 1"
    by (simp add: clampQty_nonpositive)
  have inv: "(\<forall>x \<in> set (c_items s). js_ge (qty x) (Fin 1))
         \<longrightarrow> (\<forall>x \<in> set (c_items s'). js_ge (qty x) (Fin 1))"
    by (auto simp: items clampQty_ge_1)
  show ?thesis
    using len nth st clampQty_floor_clamped [of q] zero nan neg clampQty_ge_1 [of q] inv
    by (intro conjI)
qed

theorem C6_setQty_witness:
  "c_items (fst (setQty ex_stringify (Fin 3) (Fin 0) (ex_cart_state, ex_world)))
     = [\<lparr>product_id = Fin 3, qty = Fin 1\<rparr>, \<lparr>product_id = Fin 5, qty = Fin 4\<rparr>]
   \<and> js_ge (Fin 2) (Fin 1) \<and> js_ge (Fin 4) (Fin 1)
   \<and> clampQty (Fin (- 7 / 2)) = Fin 1
   \<and> clampQty (Fin (7 / 2)) = Fin 3
   \<and> storage (snd (setQty ex_stringify (Fin 3) (Fin 0) (ex_cart_state, ex_world)))
        (ascii ''cart'') = Some (ascii ''[...]'')"
proof -
  obtain s' w' where run: "setQty ex_stringify (Fin 3) (Fin 0) (ex_cart_state, ex_world) = (s', w')"
    by (cases "setQty ex_stringify (Fin 3) (Fin 0) (ex_cart_state, ex_world)")
  note c6 = C6_setQty [OF run]
  have zero: "clampQty (Fin 0) = Fin 1"
    using c6 by blast
  have len: "length (c_items s') = 2"
    using c6 by (simp add: ex_cart_state_def)
  have "product_id (c_items s' ! 0) = Fin 3 \<and> qty (c_items s' ! 0) = Fin 1"
    using c6 zero by (simp add: ex_cart_state_def strict_eq_def)
  moreover have "product_id (c_items s' ! 1) = Fin 5 \<and> qty (c_items s' ! 1) = Fin 4"
    using c6 by (simp add: ex_cart_state_def strict_eq_def)
  ultimately have items: "c_items s' = [\<lparr>product_id = Fin 3, qty = Fin 1\<rparr>,
      \<lparr>product_id = Fin 5, qty = Fin 4\<rparr>]"
    using len by (auto simp: length_Suc_conv numeral_2_eq_2)
  have neg: "clampQty (Fin (- 7 / 2)) = Fin 1"
    using c6 by simp
  obtain s2 w2 where
    run2: "setQty ex_stringify (Fin 3) (Fin (7 / 2)) (ex_cart_state, ex_world) = (s2, w2)"
    by (cases "setQty ex_stringify (Fin 3) (Fin (7 / 2)) (ex_cart_state, ex_world)")
  have fl: "\<lfloor>7 / 2 :: rat\<rfloor> = 3"
    by (simp add: floor_eq_iff)
  have pos: "clampQty (Fin (7 / 2)) = Fin 3"
    using C6_setQty [OF run2] by (simp add: floor_clamped_def fl)
  have st: "storage w' (ascii ''cart'') = Some (ascii ''[...]'')"
    using c6 by (simp add: ex_stringify_def)
  from run items neg pos st show ?thesis
    by simp
qed

text \<open>
  C5. When \<open>checkout\<close> runs on an empty item list it only raises the error notification
  "Cart is empty": it does not read the token, sends no request (so no order is
  created), and leaves the component state and local storage as they were.
\<close>

theorem C5_checkout_empty:
  assumes empty: "c_items s = []"
    and run: "checkout resp (s, w) = (s', w')"
  shows "s' = s
    \<and> storage w' = storage w
    \<and> emitted w w' = [ToastError (ascii ''Cart is empty'')]
    \<and> GetItem (ascii ''token'') \<notin> set (emitted w w')
    \<and> (\<forall>e \<in> set (emitted w w'). \<not> isRequest e)"
proof -
  from empty run have s': "s' = s"
    and w': "w' = w\<lparr>trace := trace w @ [ToastError (ascii ''Cart is empty'')]\<rparr>"
    by (simp_all add: checkout_empty)
  have em: "emitted w w' = [ToastError (ascii ''Cart is empty'')]"
    by (rule emitted_append) (simp add: w')
  have st: "storage w' = storage w"
    by (simp add: w')
  from s' st em show ?thesis
    by simp
qed


theorem C5_checkout_empty_witness:
  "c_items (ex_cart_state\<lparr>c_items := []\<rparr>) = []
   \<and> fst (checkout (Inr (ascii ''17'')) (ex_cart_state\<lparr>c_items := []\<rparr>, ex_world))
       = ex_cart_state\<lparr>c_items := []\<rparr>
   \<and> trace (snd (checkout (Inr (ascii ''17'')) (ex_cart_state\<lparr>c_items := []\<rparr>, ex_world)))
       = [ToastError (ascii ''Cart is empty'')]"
proof -
  let ?s = "ex_cart_state\<lparr>c_items := []\<rparr>"
  have empty: "c_items ?s = []"
    by simp
  obtain s' w' where run: "checkout (Inr (ascii ''17'')) (?s, ex_world) = (s', w')"
    by (cases "checkout (Inr (ascii ''17'')) (?s, ex_world)")
  note c5 = C5_checkout_empty [OF empty run]
  have "trace w' = emitted ex_world w'"
    by (simp add: emitted_def ex_world_def)
  with c5 have "trace w' = [ToastError (ascii ''Cart is empty'')]"
    by simp
  with c5 run empty show ?thesis
    by simp
qed

section \<open>Facts about checkout\<close>

text \<open>\<open>checkout\<close>, branch by branch.\<close>

lemma checkout_no_token:
  "c_items s \<noteq> [] \<Longrightarrow> \<not> truthy_opt (storage w (ascii ''token'')) \<Longrightarrow>
   checkout resp (s, w) =
     (s, w\<lparr>trace := trace w @ [GetItem (ascii ''token''),
                                  ToastError (ascii ''Please login first''),
                                  Navigate (ascii ''/login'') False]\<rparr>)"
  by (simp add: checkout_def world_defs)

lemma checkout_missing:
  "c_items s \<noteq> [] \<Longrightarrow> truthy_opt (storage w (ascii ''token'')) \<Longrightarrow> missing s \<noteq> [] \<Longrightarrow>
   checkout resp (s, w) =
     (s, w\<lparr>trace := trace w @ [GetItem (ascii ''token''),
        ToastError (ascii ''Some items are unavailable (refresh products and try again)'')]\<rparr>)"
  by (simp add: checkout_def world_defs)

lemma checkout_ok:
  "c_items s \<noteq> [] \<Longrightarrow> truthy_opt (storage w (ascii ''token'')) \<Longrightarrow> missing s = [] \<Longrightarrow>
   checkout (Inr t) (s, w) =
     (s\<lparr>c_items := [], c_checkingOut := False\<rparr>,
      w\<lparr>storage := (storage w)(ascii ''cart'' := None),
        trace := trace w @ [GetItem (ascii ''token''),
          HttpPost orderApi (ascii ''/orders'')
            (OrderBody (map (\<lambda>i. \<lparr>product_id = product_id i, qty = qty i\<rparr>) (c_items s))) None,
          RemoveItem (ascii ''cart''),
          ToastSuccess (ascii ''Order created #'' @ t),
          Navigate (ascii ''/orders/'' @ t) False]\<rparr>)"
  by (simp add: checkout_def world_defs)

lemma checkout_failed:
  "c_items s \<noteq> [] \<Longrightarrow> truthy_opt (storage w (ascii ''token'')) \<Longrightarrow> missing s = [] \<Longrightarrow>
   checkout (Inl e) (s, w) =
     (s\<lparr>c_checkingOut := False\<rparr>,
      w\<lparr>trace := trace w @ [GetItem (ascii ''token''),
          HttpPost orderApi (ascii ''/orders'')
            (OrderBody (map (\<lambda>i. \<lparr>product_id = product_id i, qty = qty i\<rparr>) (c_items s))) None,
          ToastError (detail_or e (ascii ''Checkout failed''))]\<rparr>)"
  by (simp add: checkout_def world_defs)

lemma checkout_request_iff:
  assumes run: "checkout resp (s, w) = (s', w')"
  shows "(\<exists>e \<in> set (emitted w w'). isRequest e) = checkout_ready s w"
proof (cases "c_items s = []")
  case True
  with run show ?thesis
    by (auto simp: checkout_empty checkout_ready_def emitted_def)
next
  case items: False
  show ?thesis
  proof (cases "truthy_opt (storage w (ascii ''token''))")
    case False
    with items run show ?thesis
      by (auto simp: checkout_no_token checkout_ready_def emitted_def)
  next
    case tok: True
    show ?thesis
    proof (cases "missing s = []")
      case False
      with items tok run show ?thesis
        by (auto simp: checkout_missing checkout_ready_def emitted_def)
    next
      case True
      with items tok run show ?thesis
        by (cases resp) (auto simp: checkout_ok checkout_failed checkout_ready_def emitted_def)
    qed
  qed
qed

lemma checkout_error_unchanged:
  assumes run: "checkout (Inl e) (s, w) = (s', w')"
  shows "storage w' = storage w \<and> c_items s' = c_items s"
proof (cases "c_items s = []")
  case True
  with run show ?thesis
    by (auto simp: checkout_empty)
next
  case items: False
  show ?thesis
  proof (cases "truthy_opt (storage w (ascii ''token''))")
    case False
    with items run show ?thesis
      by (auto simp: checkout_no_token)
  next
    case tok: True
    show ?thesis
    proof (cases "missing s = []")
      case False
      with items tok run show ?thesis
        by (auto simp: checkout_missing)
    next
      case True
      with items tok run show ?thesis
        by (auto simp: checkout_failed)
    qed
  qed
qed

lemma ex_token: "storage ex_world (ascii ''token'') = Some (ascii ''t0k3n'')"
  by (simp add: ex_world_def ascii_def)

lemma ex_token_truthy: "truthy (ascii ''t0k3n'')"
  by (simp add: truthy_def ascii_def)

lemma ex_cart_ready_items: "c_items ex_cart_ready =
    [\<lparr>product_id = Fin 3, qty = Fin 2\<rparr>, \<lparr>product_id = Fin 5, qty = Fin 4\<rparr>]"
  by (simp add: ex_cart_ready_def Cart_loadProducts_def ex_cart_state_def)

lemma ex_cart_ready_missing: "missing ex_cart_ready = []"
  by (simp add: missing_def ex_cart_ready_def Cart_loadProducts_def ex_cart_state_def
      ex_products_def)

section \<open>Claims about checkout\<close>

text \<open>
  C8. When \<open>checkout\<close> has sent its \<open>POST /orders\<close> (it sends exactly that one request,
  with the items as payload) and the call succeeds, the \<open>cart\<close> entry is removed from
  local storage and the item list in memory becomes empty; when the call fails, local
  storage and the item list in memory are unchanged.
\<close>

theorem C8_checkout_cart:
  assumes run: "checkout resp (s, w) = (s', w')"
    and sent: "\<exists>e \<in> set (emitted w w'). isRequest e"
  shows "(\<forall>t. resp = Inr t \<longrightarrow>
            storage w' (ascii ''cart'') = None \<and> c_items s' = []
            \<and> RemoveItem (ascii ''cart'') \<in> set (emitted w w'))
    \<and> (\<forall>e. resp = Inl e \<longrightarrow>
            storage w' = storage w \<and> c_items s' = c_items s)
    \<and> [e \<leftarrow> emitted w w'. isRequest e] =
         [HttpPost orderApi (ascii ''/orders'') (OrderBody (c_items s)) None]"
proof -
  from run sent have ready: "checkout_ready s w"
    by (simp add: checkout_request_iff)
  then have items: "c_items s \<noteq> []" and tok: "truthy_opt (storage w (ascii ''token''))"
    and miss: "missing s = []"
    by (simp_all add: checkout_ready_def)
  have payload: "map (\<lambda>i. \<lparr>product_id = product_id i, qty = qty i\<rparr>) (c_items s) = c_items s"
    by (induction "c_items s") (simp_all add: map_idI)
  have ok: "\<forall>t. resp = Inr t \<longrightarrow>
            storage w' (ascii ''cart'') = None \<and> c_items s' = []
            \<and> RemoveItem (ascii ''cart'') \<in> set (emitted w w')"
    using run items tok miss by (auto simp: checkout_ok emitted_def)
  have err: "\<forall>e. resp = Inl e \<longrightarrow> storage w' = storage w \<and> c_items s' = c_items s"
    using run checkout_error_unchanged by blast
  have req: "[e \<leftarrow> emitted w w'. isRequest e] =
         [HttpPost orderApi (ascii ''/orders'') (OrderBody (c_items s)) None]"
    using run items tok miss payload
    by (cases resp) (auto simp: checkout_ok checkout_failed emitted_def)
  from ok err req show ?thesis
    by (intro conjI)
qed


theorem C8_checkout_cart_witness:
  "storage ex_world (ascii ''cart'') = Some ex_cart_raw
   \<and> c_items ex_cart_ready \<noteq> []
   \<and> c_items (fst (checkout (Inr (ascii ''17'')) (ex_cart_ready, ex_world))) = []
   \<and> storage (snd (checkout (Inr (ascii ''17'')) (ex_cart_ready, ex_world))) (ascii ''cart'') = None
   \<and> c_items (fst (checkout (Inl ex_error_400) (ex_cart_ready, ex_world))) = c_items ex_cart_ready
   \<and> storage (snd (checkout (Inl ex_error_400) (ex_cart_ready, ex_world))) = storage ex_world"
proof -
  have items: "c_items ex_cart_ready \<noteq> []"
    by (simp add: ex_cart_ready_items)
  have tok: "truthy_opt (storage ex_world (ascii ''token''))"
    by (simp add: ex_token ex_token_truthy)
  have cart: "storage ex_world (ascii ''cart'') = Some ex_cart_raw"
    by (simp add: ex_world_def)
  obtain s1 w1 where ok: "checkout (Inr (ascii ''17'')) (ex_cart_ready, ex_world) = (s1, w1)"
    by (cases "checkout (Inr (ascii ''17'')) (ex_cart_ready, ex_world)")
  have sent1: "\<exists>e \<in> set (emitted ex_world w1). isRequest e"
    using ok checkout_ok [OF items tok ex_cart_ready_missing, of "ascii ''17''"]
    by (auto simp: emitted_def)
  obtain s2 w2 where err: "checkout (Inl ex_error_400) (ex_cart_ready, ex_world) = (s2, w2)"
    by (cases "checkout (Inl ex_error_400) (ex_cart_ready, ex_world)")
  have sent2: "\<exists>e \<in> set (emitted ex_world w2). isRequest e"
    using err checkout_failed [OF items tok ex_cart_ready_missing, of ex_error_400]
    by (auto simp: emitted_def)
  from C8_checkout_cart [OF ok sent1]
  have r1: "storage w1 (ascii ''cart'') = None \<and> c_items s1 = []"
    by simp
  from C8_checkout_cart [OF err sent2]
  have r2: "storage w2 = storage ex_world \<and> c_items s2 = c_items ex_cart_ready"
    by simp
  from cart items ok err r1 r2 show ?thesis
    by simp
qed

section \<open>Facts about the Payment page\<close>

lemma getTokenOrRedirect_some:
  "storage w (ascii ''token'') = Some tok \<Longrightarrow> truthy tok \<Longrightarrow>
   getTokenOrRedirect w = (Some tok, w\<lparr>trace := trace w @ [GetItem (ascii ''token'')]\<rparr>)"
  by (simp add: getTokenOrRedirect_def world_defs)

lemma getTokenOrRedirect_none:
  "\<not> truthy_opt (storage w (ascii ''token'')) \<Longrightarrow>
   getTokenOrRedirect w =
     (None, w\<lparr>trace := trace w @ [GetItem (ascii ''token''),
                                     ToastError (ascii ''Please login first''),
                                     Navigate (ascii ''/login'') False]\<rparr>)"
  by (simp add: getTokenOrRedirect_def world_defs)

lemma handleAuthError_eq:
  "handleAuthError w =
     w\<lparr>storage := (storage w)(ascii ''token'' := None),
       trace := trace w @ [ToastError (ascii ''Session expired. Please login again.''),
                           RemoveItem (ascii ''token''),
                           Navigate (ascii ''/login'') False]\<rparr>"
  by (simp add: handleAuthError_def world_defs)

lemma loadOrder_no_token:
  "\<not> truthy_opt (storage w (ascii ''token'')) \<Longrightarrow>
   loadOrder ident resp (s, w) =
     (None, s, w\<lparr>trace := trace w @ [GetItem (ascii ''token''),
                                        ToastError (ascii ''Please login first''),
                                        Navigate (ascii ''/login'') False]\<rparr>)"
  by (simp add: loadOrder_def getTokenOrRedirect_none)

lemma loadOrder_ok:
  "storage w (ascii ''token'') = Some tok \<Longrightarrow> truthy tok \<Longrightarrow>
   loadOrder ident (Inr d) (s, w) =
     (Some d, s\<lparr>p_order := Some d\<rparr>,
      w\<lparr>trace := trace w @ [GetItem (ascii ''token''),
             HttpGet orderApi (ascii ''/orders/'' @ ident) (Some (bearer tok))]\<rparr>)"
  by (simp add: loadOrder_def getTokenOrRedirect_some world_defs)

lemma loadOrder_auth:
  "storage w (ascii ''token'') = Some tok \<Longrightarrow> truthy tok \<Longrightarrow> isAuthStatus e \<Longrightarrow>
   loadOrder ident (Inl e) (s, w) =
     (None, s,
      w\<lparr>storage := (storage w)(ascii ''token'' := None),
        trace := trace w @ [GetItem (ascii ''token''),
             HttpGet orderApi (ascii ''/orders/'' @ ident) (Some (bearer tok)),
             ToastError (ascii ''Session expired. Please login again.''),
             RemoveItem (ascii ''token''),
             Navigate (ascii ''/login'') False]\<rparr>)"
  by (simp add: loadOrder_def getTokenOrRedirect_some handleAuthError_eq world_defs)

lemma loadOrder_other:
  "storage w (ascii ''token'') = Some tok \<Longrightarrow> truthy tok \<Longrightarrow> \<not> isAuthStatus e \<Longrightarrow>
   loadOrder ident (Inl e) (s, w) =
     (None, s\<lparr>p_order := None\<rparr>,
      w\<lparr>trace := trace w @ [GetItem (ascii ''token''),
             HttpGet orderApi (ascii ''/orders/'' @ ident) (Some (bearer tok)),
             ToastError (detail_or e (ascii ''Failed to load order''))]\<rparr>)"
  by (simp add: loadOrder_def getTokenOrRedirect_some world_defs)

text \<open>\<open>loadOrder\<close> only adds events, and none of them is a POST.\<close>

lemma loadOrder_extends:
  "\<exists>es. trace (snd (snd (loadOrder ident resp (s, w)))) = trace w @ es
        \<and> (\<forall>e \<in> set es. \<not> isPost e)"
proof (cases "truthy_opt (storage w (ascii ''token''))")
  case False
  then show ?thesis
    by (simp add: loadOrder_no_token isPost_def)
next
  case True
  then obtain tok where tok: "storage w (ascii ''token'') = Some tok" "truthy tok"
    by (cases "storage w (ascii ''token'')") simp_all
  show ?thesis
  proof (cases resp)
    case (Inr d)
    with tok show ?thesis
      by (simp add: loadOrder_ok isPost_def)
  next
    case (Inl e)
    with tok show ?thesis
      by (cases "isAuthStatus e") (simp_all add: loadOrder_auth loadOrder_other isPost_def)
  qed
qed

lemma validateForm_valid: "formValid s \<Longrightarrow> validateForm s w = (True, w)"
  by (simp add: validateForm_def formValid_def)

lemma validateForm_invalid:
  "\<not> formValid s \<Longrightarrow> \<exists>m. validateForm s w = (False, w\<lparr>trace := trace w @ [ToastError m]\<rparr>)"
  by (auto simp: validateForm_def formValid_def world_defs)

lemma isValidPhone_nonempty: "isValidPhone p \<Longrightarrow> truthy (trim p)"
proof -
  assume "isValidPhone p"
  then have "filter isDigit (trim p) \<noteq> []"
    by (auto simp: isValidPhone_count digitCount_def filter_digit_trim)
  then show ?thesis
    by (auto simp: truthy_def)
qed

lemma formValid_iff: "formValid s = (trim (p_address s) \<noteq> [] \<and> isValidPhone (p_phone s))"
  using isValidPhone_nonempty by (auto simp: formValid_def truthy_def)

lemma handlePay_no_id:
  "\<not> truthy_opt orderId \<Longrightarrow> handlePay orderId payResp reloadResp (s, w) = (None, s, w)"
  by (cases orderId) (simp_all add: handlePay_def)

lemma handlePay_no_token:
  "truthy oid \<Longrightarrow> \<not> truthy_opt (storage w (ascii ''token'')) \<Longrightarrow>
   handlePay (Some oid) payResp reloadResp (s, w) =
     (None, s, w\<lparr>trace := trace w @ [GetItem (ascii ''token''),
                                        ToastError (ascii ''Please login first''),
                                        Navigate (ascii ''/login'') False]\<rparr>)"
  by (simp add: handlePay_def getTokenOrRedirect_none)

lemma handlePay_invalid:
  "truthy oid \<Longrightarrow> storage w (ascii ''token'') = Some tok \<Longrightarrow> truthy tok \<Longrightarrow> \<not> formValid s \<Longrightarrow>
   \<exists>m. handlePay (Some oid) payResp reloadResp (s, w) =
     (None, s, w\<lparr>trace := trace w @ [GetItem (ascii ''token''), ToastError m]\<rparr>)"
proof -
  assume a: "truthy oid" "storage w (ascii ''token'') = Some tok" "truthy tok" "\<not> formValid s"
  let ?w1 = "w\<lparr>trace := trace w @ [GetItem (ascii ''token'')]\<rparr>"
  from a(4) obtain m where m: "validateForm s ?w1 = (False, ?w1\<lparr>trace := trace ?w1 @ [ToastError m]\<rparr>)"
    using validateForm_invalid by blast
  with a have "handlePay (Some oid) payResp reloadResp (s, w) =
      (None, s, w\<lparr>trace := trace w @ [GetItem (ascii ''token''), ToastError m]\<rparr>)"
    by (simp add: handlePay_def getTokenOrRedirect_some)
  then show ?thesis
    by blast
qed

lemma handlePay_auth:
  "truthy oid \<Longrightarrow> storage w (ascii ''token'') = Some tok \<Longrightarrow> truthy tok \<Longrightarrow> formValid s \<Longrightarrow>
   isAuthStatus e \<Longrightarrow>
   handlePay (Some oid) (Inl e) reloadResp (s, w) =
     (None, s\<lparr>p_paying := False\<rparr>,
      w\<lparr>storage := (storage w)(ascii ''token'' := None),
        trace := trace w @ [GetItem (ascii ''token''), payRequest oid tok s,
             ToastError (ascii ''Session expired. Please login again.''),
             RemoveItem (ascii ''token''),
             Navigate (ascii ''/login'') False]\<rparr>)"
  by (simp add: handlePay_def getTokenOrRedirect_some validateForm_valid handleAuthError_eq
      payRequest_def world_defs)

lemma handlePay_other:
  "truthy oid \<Longrightarrow> storage w (ascii ''token'') = Some tok \<Longrightarrow> truthy tok \<Longrightarrow> formValid s \<Longrightarrow>
   \<not> isAuthStatus e \<Longrightarrow>
   handlePay (Some oid) (Inl e) reloadResp (s, w) =
     (None, s\<lparr>p_paying := False\<rparr>,
      w\<lparr>trace := trace w @ [GetItem (ascii ''token''), payRequest oid tok s,
             ToastError (detail_or e (ascii ''Payment failed''))]\<rparr>)"
  by (simp add: handlePay_def getTokenOrRedirect_some validateForm_valid
      payRequest_def world_defs)

lemma handlePay_paid:
  "truthy oid \<Longrightarrow> storage w (ascii ''token'') = Some tok \<Longrightarrow> truthy tok \<Longrightarrow> formValid s \<Longrightarrow>
   \<exists>es. trace (snd (snd (handlePay (Some oid) (Inr res) reloadResp (s, w)))) =
          trace w @ [GetItem (ascii ''token''), payRequest oid tok s] @ es
        \<and> (\<forall>e \<in> set es. \<not> isPost e)"
proof -
  assume a: "truthy oid" "storage w (ascii ''token'') = Some tok" "truthy tok" "formValid s"
  let ?w4 = "w\<lparr>trace := trace w @ [GetItem (ascii ''token''), payRequest oid tok s,
      ToastSuccess (ascii ''Payment successful '' @ [0xD83C, 0xDF89])]\<rparr>"
  let ?s1 = "s\<lparr>p_paying := True\<rparr>"
  obtain r s2 w5 where lo: "loadOrder oid reloadResp (?s1, ?w4) = (r, s2, w5)"
    by (cases "loadOrder oid reloadResp (?s1, ?w4)")
  from loadOrder_extends [of oid reloadResp ?s1 ?w4] lo
  obtain es where es: "trace w5 = trace ?w4 @ es" "\<forall>e \<in> set es. \<not> isPost e"
    by auto
  have "handlePay (Some oid) (Inr res) reloadResp (s, w) =
      (Some res, s2\<lparr>p_paying := False\<rparr>, nav_replace (ascii ''/payments'') w5)"
    using a lo
    by (simp add: handlePay_def getTokenOrRedirect_some validateForm_valid payRequest_def
        world_defs)
  then have "trace (snd (snd (handlePay (Some oid) (Inr res) reloadResp (s, w)))) =
      trace w @ [GetItem (ascii ''token''), payRequest oid tok s]
        @ (ToastSuccess (ascii ''Payment successful '' @ [0xD83C, 0xDF89]) # es
           @ [Navigate (ascii ''/payments'') True])"
    using es by (simp add: world_defs)
  moreover have "\<forall>e \<in> set (ToastSuccess (ascii ''Payment successful '' @ [0xD83C, 0xDF89]) # es
           @ [Navigate (ascii ''/payments'') True]). \<not> isPost e"
    using es by (auto simp: isPost_def)
  ultimately show ?thesis
    by blast
qed


lemma isPost_isRequest: "isPost e \<Longrightarrow> isRequest e"
  by (cases e) (simp_all add: isPost_def)

lemma isPost_HttpPost: "isPost (HttpPost a u b h)"
  by (simp add: isPost_def)

lemma handlePay_emitted_valid:
  assumes run: "handlePay (Some oid) payResp reloadResp (s, w) = (r, s', w')"
    and oid: "truthy oid" and tok: "storage w (ascii ''token'') = Some tok" "truthy tok"
    and valid: "formValid s"
  shows "\<exists>es. emitted w w' = [GetItem (ascii ''token''), payRequest oid tok s] @ es
              \<and> (\<forall>e \<in> set es. \<not> isPost e)"
proof (cases payResp)
  case (Inr res)
  from handlePay_paid [OF oid tok valid, of res reloadResp] run Inr
  obtain es where "trace w' = trace w @ [GetItem (ascii ''token''), payRequest oid tok s] @ es"
    and "\<forall>e \<in> set es. \<not> isPost e"
    by auto
  then show ?thesis
    by (auto simp: emitted_def)
next
  case (Inl e)
  show ?thesis
  proof (cases "isAuthStatus e")
    case True
    from handlePay_auth [OF oid tok valid True, of reloadResp] run Inl
    show ?thesis
      by (auto simp: emitted_def isPost_def)
  next
    case False
    from handlePay_other [OF oid tok valid False, of reloadResp] run Inl
    show ?thesis
      by (auto simp: emitted_def isPost_def)
  qed
qed

lemma handlePay_emitted_stopped:
  assumes run: "handlePay orderId payResp reloadResp (s, w) = (r, s', w')"
    and stop: "\<not> (truthy_opt orderId \<and> truthy_opt (storage w (ascii ''token'')) \<and> formValid s)"
  shows "\<forall>e \<in> set (emitted w w'). \<not> isRequest e"
proof (cases "truthy_opt orderId")
  case False
  with run show ?thesis
    by (simp add: handlePay_no_id emitted_def)
next
  case True
  then obtain oid where oid: "orderId = Some oid" "truthy oid"
    by (cases orderId) simp_all
  show ?thesis
  proof (cases "truthy_opt (storage w (ascii ''token''))")
    case False
    with run oid show ?thesis
      by (auto simp: handlePay_no_token emitted_def)
  next
    case tk: True
    then obtain tok where tok: "storage w (ascii ''token'') = Some tok" "truthy tok"
      by (cases "storage w (ascii ''token'')") simp_all
    from stop True tk have "\<not> formValid s"
      by simp
    from handlePay_invalid [OF oid(2) tok this, of payResp reloadResp] run oid
    show ?thesis
      by (auto simp: emitted_def)
  qed
qed

section \<open>Claims about the Payment page\<close>

text \<open>
  C7. Every POST that \<open>handlePay\<close> sends goes to \<open>/payments/{orderId}\<close> of the payment
  client with the payload \<open>{shipping_address: trim(address), phone_number:
  normalizePhone(phone)}\<close>, where the trimmed address is not empty and the normalised
  phone passes the validation (9 to 15 digits). If the trimmed address is empty or the
  phone fails the validation, \<open>handlePay\<close> returns without any request. The POST is sent
  exactly when there is an order id, a token, a non-empty trimmed address and a valid
  phone.
\<close>

theorem C7_handlePay:
  assumes run: "handlePay orderId payResp reloadResp (s, w) = (r, s', w')"
  shows "(\<forall>a u b h. HttpPost a u b h \<in> set (emitted w w') \<longrightarrow>
            a = paymentApi
            \<and> (\<exists>oid. orderId = Some oid \<and> oid \<noteq> [] \<and> u = ascii ''/payments/'' @ oid)
            \<and> b = PayBody \<lparr>shipping_address = trim (p_address s),
                            phone_number = normalizePhone (p_phone s)\<rparr>
            \<and> trim (p_address s) \<noteq> []
            \<and> isValidPhone (normalizePhone (p_phone s))
            \<and> 9 \<le> digitCount (normalizePhone (p_phone s))
            \<and> digitCount (normalizePhone (p_phone s)) \<le> 15)
    \<and> (trim (p_address s) = [] \<or> \<not> isValidPhone (normalizePhone (p_phone s)) \<longrightarrow>
          (\<forall>e \<in> set (emitted w w'). \<not> isRequest e))
    \<and> ((\<exists>a u b h. HttpPost a u b h \<in> set (emitted w w')) =
          (truthy_opt orderId \<and> truthy_opt (storage w (ascii ''token''))
           \<and> trim (p_address s) \<noteq> [] \<and> isValidPhone (normalizePhone (p_phone s))))"
proof -
  let ?go = "truthy_opt orderId \<and> truthy_opt (storage w (ascii ''token'')) \<and> formValid s"
  have norm: "isValidPhone (normalizePhone (p_phone s)) = isValidPhone (p_phone s)"
    by (simp add: isValidPhone_count digitCount_normalizePhone)
  have fv: "formValid s = (trim (p_address s) \<noteq> [] \<and> isValidPhone (normalizePhone (p_phone s)))"
    by (simp add: formValid_iff norm)
  have stopped: "\<forall>e \<in> set (emitted w w'). \<not> isRequest e" if "\<not> ?go"
    using run that by (rule handlePay_emitted_stopped)
  have went: "\<exists>oid tok es. orderId = Some oid \<and> oid \<noteq> []
        \<and> emitted w w' = [GetItem (ascii ''token''), payRequest oid tok s] @ es
        \<and> (\<forall>e \<in> set es. \<not> isPost e)" if go: "?go"
  proof -
    from go obtain oid where oid: "orderId = Some oid" "truthy oid"
      by (cases orderId) simp_all
    from go obtain tok where tok: "storage w (ascii ''token'') = Some tok" "truthy tok"
      by (cases "storage w (ascii ''token'')") simp_all
    from go have valid: "formValid s"
      by simp
    from handlePay_emitted_valid [OF run [unfolded oid(1)] oid(2) tok valid] oid
    show ?thesis
      by (auto simp: truthy_def)
  qed
  have posts: "a = paymentApi
            \<and> (\<exists>oid. orderId = Some oid \<and> oid \<noteq> [] \<and> u = ascii ''/payments/'' @ oid)
            \<and> b = PayBody \<lparr>shipping_address = trim (p_address s),
                            phone_number = normalizePhone (p_phone s)\<rparr>
            \<and> trim (p_address s) \<noteq> []
            \<and> isValidPhone (normalizePhone (p_phone s))
            \<and> 9 \<le> digitCount (normalizePhone (p_phone s))
            \<and> digitCount (normalizePhone (p_phone s)) \<le> 15"
    if mem: "HttpPost a u b h \<in> set (emitted w w')" for a u b h
  proof -
    have go: "?go"
    proof (rule ccontr)
      assume "\<not> ?go"
      then have "\<not> isRequest (HttpPost a u b h)"
        using stopped mem by blast
      then show False
        by simp
    qed
    from went [OF go] obtain oid tok es where oid: "orderId = Some oid" "oid \<noteq> []"
      and em: "emitted w w' = [GetItem (ascii ''token''), payRequest oid tok s] @ es"
      and es: "\<forall>e \<in> set es. \<not> isPost e"
      by blast
    from mem em es have "HttpPost a u b h = payRequest oid tok s"
      using isPost_HttpPost by auto
    then have req: "a = paymentApi" "u = ascii ''/payments/'' @ oid"
      "b = PayBody \<lparr>shipping_address = trim (p_address s),
                     phone_number = normalizePhone (p_phone s)\<rparr>"
      by (simp_all add: payRequest_def)
    from go have valid: "trim (p_address s) \<noteq> []" "isValidPhone (normalizePhone (p_phone s))"
      by (simp_all add: fv)
    from valid(2) have cnt: "9 \<le> digitCount (normalizePhone (p_phone s))"
      "digitCount (normalizePhone (p_phone s)) \<le> 15"
      by (simp_all add: isValidPhone_count)
    from req oid valid cnt show ?thesis
      by simp
  qed
  have c1: "\<forall>a u b h. HttpPost a u b h \<in> set (emitted w w') \<longrightarrow>
            a = paymentApi
            \<and> (\<exists>oid. orderId = Some oid \<and> oid \<noteq> [] \<and> u = ascii ''/payments/'' @ oid)
            \<and> b = PayBody \<lparr>shipping_address = trim (p_address s),
                            phone_number = normalizePhone (p_phone s)\<rparr>
            \<and> trim (p_address s) \<noteq> []
            \<and> isValidPhone (normalizePhone (p_phone s))
            \<and> 9 \<le> digitCount (normalizePhone (p_phone s))
            \<and> digitCount (normalizePhone (p_phone s)) \<le> 15"
    using posts by (intro allI impI)
  have c2: "trim (p_address s) = [] \<or> \<not> isValidPhone (normalizePhone (p_phone s)) \<longrightarrow>
          (\<forall>e \<in> set (emitted w w'). \<not> isRequest e)"
  proof
    assume "trim (p_address s) = [] \<or> \<not> isValidPhone (normalizePhone (p_phone s))"
    then have "\<not> ?go"
      by (auto simp: fv)
    then show "\<forall>e \<in> set (emitted w w'). \<not> isRequest e"
      by (rule stopped)
  qed
  have c3: "(\<exists>a u b h. HttpPost a u b h \<in> set (emitted w w')) =
          (truthy_opt orderId \<and> truthy_opt (storage w (ascii ''token''))
           \<and> trim (p_address s) \<noteq> [] \<and> isValidPhone (normalizePhone (p_phone s)))"
  proof
    assume "\<exists>a u b h. HttpPost a u b h \<in> set (emitted w w')"
    then obtain a u b h where mem: "HttpPost a u b h \<in> set (emitted w w')"
      by blast
    have "?go"
    proof (rule ccontr)
      assume "\<not> ?go"
      then have "\<not> isRequest (HttpPost a u b h)"
        using stopped mem by blast
      then show False
        by simp
    qed
    then show "truthy_opt orderId \<and> truthy_opt (storage w (ascii ''token''))
           \<and> trim (p_address s) \<noteq> [] \<and> isValidPhone (normalizePhone (p_phone s))"
      by (simp add: fv)
  next
    assume "truthy_opt orderId \<and> truthy_opt (storage w (ascii ''token''))
           \<and> trim (p_address s) \<noteq> [] \<and> isValidPhone (normalizePhone (p_phone s))"
    then have "?go"
      by (simp add: fv)
    from went [OF this] obtain oid tok es where
      "emitted w w' = [GetItem (ascii ''token''), payRequest oid tok s] @ es"
      by blast
    then have "payRequest oid tok s \<in> set (emitted w w')"
      by simp
    then show "\<exists>a u b h. HttpPost a u b h \<in> set (emitted w w')"
      unfolding payRequest_def by blast
  qed
  from c1 c2 c3 show ?thesis
    by (intro conjI)
qed


theorem C7_handlePay_witness:
  "(\<exists>h. HttpPost paymentApi (ascii ''/payments/7'')
           (PayBody \<lparr>shipping_address = ascii ''12 Candy Lane'',
                     phone_number = ascii ''+84901234567''\<rparr>) h
         \<in> set (trace (snd (snd (handlePay (Some (ascii ''7''))
                   (Inr \<lparr>ok = True, payment_id = Fin 1\<rparr>) (Inr ex_order)
                   (ex_pay_state, ex_world))))))
   \<and> isValidPhone (ascii ''+84901234567'')
   \<and> trim (p_address (ex_pay_state\<lparr>p_address := ascii ''   ''\<rparr>)) = []
   \<and> [e \<leftarrow> trace (snd (snd (handlePay (Some (ascii ''7''))
                   (Inr \<lparr>ok = True, payment_id = Fin 1\<rparr>) (Inr ex_order)
                   (ex_pay_state\<lparr>p_address := ascii ''   ''\<rparr>, ex_world)))). isRequest e] = []"
proof -
  let ?res = "Inr \<lparr>ok = True, payment_id = Fin 1\<rparr> :: http_error + PayResult"
  have addr: "trim (p_address ex_pay_state) = ascii ''12 Candy Lane''"
    by (simp add: ex_pay_state_def trim_def isWhiteSpace_def ascii_def)
  have phone: "normalizePhone (p_phone ex_pay_state) = ascii ''+84901234567''"
    by (simp add: ex_pay_state_def normalizePhone_def trim_def startsWith_def slice1_def
        replace_nonDigits_def ascii_def isWhiteSpace_def isDigit_def)
  have valid: "isValidPhone (ascii ''+84901234567'')"
    by (simp add: isValidPhone_count digitCount_def ascii_def isDigit_def)
  have em: "emitted ex_world w' = trace w'" for w'
    by (simp add: emitted_def ex_world_def)
  obtain r s' w' where run:
    "handlePay (Some (ascii ''7'')) ?res (Inr ex_order) (ex_pay_state, ex_world) = (r, s', w')"
    by (cases "handlePay (Some (ascii ''7'')) ?res (Inr ex_order) (ex_pay_state, ex_world)")
  note c7 = C7_handlePay [OF run]
  have "truthy_opt (Some (ascii ''7'')) \<and> truthy_opt (storage ex_world (ascii ''token''))
      \<and> trim (p_address ex_pay_state) \<noteq> []
      \<and> isValidPhone (normalizePhone (p_phone ex_pay_state))"
    by (simp add: addr phone valid ex_token ex_token_truthy) (simp add: truthy_def ascii_def)
  with c7 obtain a u b h where mem: "HttpPost a u b h \<in> set (emitted ex_world w')"
    by blast
  with c7 have "a = paymentApi \<and> u = ascii ''/payments/'' @ ascii ''7''
      \<and> b = PayBody \<lparr>shipping_address = trim (p_address ex_pay_state),
                      phone_number = normalizePhone (p_phone ex_pay_state)\<rparr>"
    by blast
  with mem have sent: "\<exists>h. HttpPost paymentApi (ascii ''/payments/7'')
           (PayBody \<lparr>shipping_address = ascii ''12 Candy Lane'',
                     phone_number = ascii ''+84901234567''\<rparr>) h \<in> set (trace w')"
    by (auto simp: addr phone em ascii_def)
  let ?blank = "ex_pay_state\<lparr>p_address := ascii ''   ''\<rparr>"
  have blank: "trim (p_address ?blank) = []"
    by (simp add: trim_def isWhiteSpace_def ascii_def)
  obtain r2 s2 w2 where run2:
    "handlePay (Some (ascii ''7'')) ?res (Inr ex_order) (?blank, ex_world) = (r2, s2, w2)"
    by (cases "handlePay (Some (ascii ''7'')) ?res (Inr ex_order) (?blank, ex_world)")
  from C7_handlePay [OF run2] blank have "\<forall>e \<in> set (emitted ex_world w2). \<not> isRequest e"
    by blast
  then have none: "[e \<leftarrow> trace w2. isRequest e] = []"
    by (simp add: em filter_empty_conv)
  from run run2 sent valid blank none show ?thesis
    by simp
qed

text \<open>
  C4. For every loaded order, the order-details page renders the "Go to Payment" link
  if and only if \<open>order.status\<close> is exactly \<open>"CREATED"\<close>, and the payment page offers
  its pay button under the same condition (\<open>isPayable\<close>); the button is labelled
  "Pay Now" and carries \<open>disabled={paying}\<close>, so it is live whenever no payment is in
  flight. For any other status neither action is rendered.
\<close>

theorem C4_pay_actions:
  assumes details: "od_loading sd = False" "od_order sd = Some ord"
    and payment: "p_loading sp = False" "truthy_opt orderId" "p_order sp = Some ord"
  shows "(goToPaymentLink (OrderDetails_render sd) \<noteq> None) = (o_status ord = ascii ''CREATED'')
    \<and> goToPaymentLink (OrderDetails_render sd) =
        (if o_status ord = ascii ''CREATED'' then Some (o_id ord) else None)
    \<and> isPayable sp = (o_status ord = ascii ''CREATED'')
    \<and> isPayButton (payAction (Payment_render orderId sp)) = (o_status ord = ascii ''CREATED'')
    \<and> payAction (Payment_render orderId sp) =
        (if o_status ord = ascii ''CREATED''
         then Some (PayButton (p_paying sp)
                 (if p_paying sp then ascii ''Processing'' @ [0x2026] else ascii ''Pay Now''))
         else Some NotCreatedNotice)
    \<and> (o_status ord \<noteq> ascii ''CREATED'' \<longrightarrow>
          goToPaymentLink (OrderDetails_render sd) = None
          \<and> \<not> isPayButton (payAction (Payment_render orderId sp)))"
proof -
  have od: "OrderDetails_render sd =
      OD_Order ord (if o_status ord = ascii ''CREATED'' then Some (o_id ord) else None)"
    using details by (simp add: OrderDetails_render_def)
  have payable: "isPayable sp = (o_status ord = ascii ''CREATED'')"
    using payment by (simp add: isPayable_def)
  have pv: "Payment_render orderId sp =
      PV_Form ord (if o_status ord = ascii ''CREATED''
         then PayButton (p_paying sp)
                 (if p_paying sp then ascii ''Processing'' @ [0x2026] else ascii ''Pay Now'')
         else NotCreatedNotice)"
    using payment by (simp add: Payment_render_def payable)
  show ?thesis
    by (simp add: od pv payable)
qed

theorem C4_pay_actions_witness:
  "goToPaymentLink (OrderDetails_render \<lparr>od_loading = False, od_order = Some ex_order\<rparr>)
     = Some (Fin 7)
   \<and> payAction (Payment_render (Some (ascii ''7'')) ex_pay_state)
     = Some (PayButton False (ascii ''Pay Now''))
   \<and> o_status (ex_order\<lparr>o_status := ascii ''PAID''\<rparr>) \<noteq> ascii ''CREATED''
   \<and> goToPaymentLink (OrderDetails_render
        \<lparr>od_loading = False, od_order = Some (ex_order\<lparr>o_status := ascii ''PAID''\<rparr>)\<rparr>) = None
   \<and> payAction (Payment_render (Some (ascii ''7''))
        (ex_pay_state\<lparr>p_order := Some (ex_order\<lparr>o_status := ascii ''PAID''\<rparr>)\<rparr>))
     = Some NotCreatedNotice"
proof -
  let ?paid = "ex_order\<lparr>o_status := ascii ''PAID''\<rparr>"
  have t7: "truthy_opt (Some (ascii ''7''))"
    by (simp add: truthy_def ascii_def)
  have created: "o_status ex_order = ascii ''CREATED''"
    by (simp add: ex_order_def)
  have paid: "o_status ?paid \<noteq> ascii ''CREATED''"
    by (simp add: ascii_def)
  have idle: "\<not> p_paying ex_pay_state"
    by (simp add: ex_pay_state_def)
  have c1: "goToPaymentLink (OrderDetails_render \<lparr>od_loading = False, od_order = Some ex_order\<rparr>)
        = Some (o_id ex_order)
      \<and> payAction (Payment_render (Some (ascii ''7'')) ex_pay_state)
        = Some (PayButton False (ascii ''Pay Now''))"
    using C4_pay_actions [of "\<lparr>od_loading = False, od_order = Some ex_order\<rparr>" ex_order
        ex_pay_state "Some (ascii ''7'')"] t7 created idle
    by (simp add: ex_pay_state_def)
  have c2: "goToPaymentLink (OrderDetails_render \<lparr>od_loading = False, od_order = Some ?paid\<rparr>)
        = None
      \<and> payAction (Payment_render (Some (ascii ''7'')) (ex_pay_state\<lparr>p_order := Some ?paid\<rparr>))
        = Some NotCreatedNotice"
    using C4_pay_actions [of "\<lparr>od_loading = False, od_order = Some ?paid\<rparr>" ?paid
        "ex_pay_state\<lparr>p_order := Some ?paid\<rparr>" "Some (ascii ''7'')"] t7 paid
    by (simp add: ex_pay_state_def)
  have "o_id ex_order = Fin 7"
    by (simp add: ex_order_def)
  with c1 c2 paid show ?thesis
    by simp
qed

section \<open>Facts about error responses\<close>

lemma Payments_load_auth:
  "storage w (ascii ''token'') = Some tok \<Longrightarrow> truthy tok \<Longrightarrow> isAuthStatus e \<Longrightarrow>
   Payments_load (Inl e) (s, w) =
     (s\<lparr>h_loading := False\<rparr>,
      w\<lparr>storage := (storage w)(ascii ''token'' := None),
        trace := trace w @ [GetItem (ascii ''token''),
             HttpGet paymentApi (ascii ''/payments'') (Some (bearer tok)),
             ToastError (ascii ''Session expired. Please login again.''),
             RemoveItem (ascii ''token''),
             Navigate (ascii ''/login'') False]\<rparr>)"
  by (simp add: Payments_load_def handleAuthError_eq world_defs)

lemma Payments_load_other:
  "storage w (ascii ''token'') = Some tok \<Longrightarrow> truthy tok \<Longrightarrow> \<not> isAuthStatus e \<Longrightarrow>
   Payments_load (Inl e) (s, w) =
     (s\<lparr>h_loading := False\<rparr>,
      w\<lparr>trace := trace w @ [GetItem (ascii ''token''),
             HttpGet paymentApi (ascii ''/payments'') (Some (bearer tok)),
             ToastError (detail_or e (ascii ''Failed to load payments''))]\<rparr>)"
  by (simp add: Payments_load_def world_defs)

lemma OrderDetails_load_error:
  "storage w (ascii ''token'') = Some tok \<Longrightarrow> truthy tok \<Longrightarrow> truthy oid \<Longrightarrow>
   OrderDetails_load (Some oid) (Inl e) (s, w) =
     (s\<lparr>od_loading := False, od_order := None\<rparr>,
      w\<lparr>trace := trace w @ [GetItem (ascii ''token''),
             HttpGet orderApi (ascii ''/orders/'' @ oid) None,
             ToastError (detail_or e (ascii ''Failed to load order''))]\<rparr>)"
  by (simp add: OrderDetails_load_def world_defs)

lemma Cart_loadProducts_error:
  "Cart_loadProducts (Inl e) (s, w) =
     (s\<lparr>c_loading := False\<rparr>,
      w\<lparr>trace := trace w @ [HttpGet productApi (ascii ''/products'') None,
             ToastError (detail_or e (ascii ''Failed to load products''))]\<rparr>)"
  by (simp add: Cart_loadProducts_def world_defs)

lemma handlePay_reload_auth:
  "truthy oid \<Longrightarrow> storage w (ascii ''token'') = Some tok \<Longrightarrow> truthy tok \<Longrightarrow> formValid s \<Longrightarrow>
   isAuthStatus e \<Longrightarrow>
   handlePay (Some oid) (Inr res) (Inl e) (s, w) =
     (Some res, s\<lparr>p_paying := False\<rparr>,
      w\<lparr>storage := (storage w)(ascii ''token'' := None),
        trace := trace w @ [GetItem (ascii ''token''), payRequest oid tok s,
             ToastSuccess (ascii ''Payment successful '' @ [0xD83C, 0xDF89]),
             GetItem (ascii ''token''),
             HttpGet orderApi (ascii ''/orders/'' @ oid) (Some (bearer tok)),
             ToastError (ascii ''Session expired. Please login again.''),
             RemoveItem (ascii ''token''),
             Navigate (ascii ''/login'') False,
             Navigate (ascii ''/payments'') True]\<rparr>)"
proof -
  assume a: "truthy oid" "storage w (ascii ''token'') = Some tok" "truthy tok" "formValid s"
    "isAuthStatus e"
  let ?w4 = "w\<lparr>trace := trace w @ [GetItem (ascii ''token''), payRequest oid tok s,
      ToastSuccess (ascii ''Payment successful '' @ [0xD83C, 0xDF89])]\<rparr>"
  have tok4: "storage ?w4 (ascii ''token'') = Some tok"
    using a by simp
  note lo = loadOrder_auth [OF tok4 a(3) a(5), of oid "s\<lparr>p_paying := True\<rparr>"]
  show ?thesis
    using a lo
    by (simp add: handlePay_def getTokenOrRedirect_some validateForm_valid payRequest_def
        world_defs)
qed

lemma handlePay_reload_other:
  "truthy oid \<Longrightarrow> storage w (ascii ''token'') = Some tok \<Longrightarrow> truthy tok \<Longrightarrow> formValid s \<Longrightarrow>
   \<not> isAuthStatus e \<Longrightarrow>
   handlePay (Some oid) (Inr res) (Inl e) (s, w) =
     (Some res, s\<lparr>p_paying := False, p_order := None\<rparr>,
      w\<lparr>trace := trace w @ [GetItem (ascii ''token''), payRequest oid tok s,
             ToastSuccess (ascii ''Payment successful '' @ [0xD83C, 0xDF89]),
             GetItem (ascii ''token''),
             HttpGet orderApi (ascii ''/orders/'' @ oid) (Some (bearer tok)),
             ToastError (detail_or e (ascii ''Failed to load order'')),
             Navigate (ascii ''/payments'') True]\<rparr>)"
proof -
  assume a: "truthy oid" "storage w (ascii ''token'') = Some tok" "truthy tok" "formValid s"
    "\<not> isAuthStatus e"
  let ?w4 = "w\<lparr>trace := trace w @ [GetItem (ascii ''token''), payRequest oid tok s,
      ToastSuccess (ascii ''Payment successful '' @ [0xD83C, 0xDF89])]\<rparr>"
  have tok4: "storage ?w4 (ascii ''token'') = Some tok"
    using a by simp
  note lo = loadOrder_other [OF tok4 a(3) a(5), of oid "s\<lparr>p_paying := True\<rparr>"]
  show ?thesis
    using a lo
    by (simp add: handlePay_def getTokenOrRedirect_some validateForm_valid payRequest_def
        world_defs)
qed


lemma Payments_load_no_token:
  "\<not> truthy_opt (storage w (ascii ''token'')) \<Longrightarrow>
   Payments_load resp (s, w) =
     (s, w\<lparr>trace := trace w @ [GetItem (ascii ''token''),
                                  ToastError (ascii ''Please login first''),
                                  Navigate (ascii ''/login'') False]\<rparr>)"
  by (cases "storage w (ascii ''token'')") (simp_all add: Payments_load_def world_defs)

lemma OrderDetails_load_no_token:
  "\<not> truthy_opt (storage w (ascii ''token'')) \<Longrightarrow>
   OrderDetails_load orderId resp (s, w) =
     (s, w\<lparr>trace := trace w @ [GetItem (ascii ''token''),
                                  ToastError (ascii ''Please login first''),
                                  Navigate (ascii ''/login'') False]\<rparr>)"
  by (simp add: OrderDetails_load_def world_defs)

lemma OrderDetails_load_no_id:
  "truthy_opt (storage w (ascii ''token'')) \<Longrightarrow> \<not> truthy_opt orderId \<Longrightarrow>
   OrderDetails_load orderId resp (s, w) =
     (s\<lparr>od_order := None, od_loading := False\<rparr>,
      w\<lparr>trace := trace w @ [GetItem (ascii ''token'')]\<rparr>)"
  by (cases orderId) (simp_all add: OrderDetails_load_def world_defs)

text \<open>A handler that sent its request had what it needs to get that far.\<close>

lemma loadOrder_sent:
  assumes run: "loadOrder ident resp (s, w) = (r, s', w')" and sent: "requestSent w w'"
  obtains tok where "storage w (ascii ''token'') = Some tok" "truthy tok"
proof (cases "truthy_opt (storage w (ascii ''token''))")
  case False
  with run sent show ?thesis
    by (auto simp: loadOrder_no_token requestSent_def emitted_def)
next
  case True
  then obtain tok where "storage w (ascii ''token'') = Some tok" "truthy tok"
    by (cases "storage w (ascii ''token'')") simp_all
  then show ?thesis
    by (rule that)
qed

lemma Payments_load_sent:
  assumes run: "Payments_load resp (s, w) = (s', w')" and sent: "requestSent w w'"
  obtains tok where "storage w (ascii ''token'') = Some tok" "truthy tok"
proof (cases "truthy_opt (storage w (ascii ''token''))")
  case False
  with run sent show ?thesis
    by (auto simp: Payments_load_no_token requestSent_def emitted_def)
next
  case True
  then obtain tok where "storage w (ascii ''token'') = Some tok" "truthy tok"
    by (cases "storage w (ascii ''token'')") simp_all
  then show ?thesis
    by (rule that)
qed

lemma OrderDetails_load_sent:
  assumes run: "OrderDetails_load orderId resp (s, w) = (s', w')" and sent: "requestSent w w'"
  obtains tok oid where "storage w (ascii ''token'') = Some tok" "truthy tok"
    "orderId = Some oid" "truthy oid"
proof (cases "truthy_opt (storage w (ascii ''token''))")
  case False
  with run sent show ?thesis
    by (auto simp: OrderDetails_load_no_token requestSent_def emitted_def)
next
  case True
  then obtain tok where tok: "storage w (ascii ''token'') = Some tok" "truthy tok"
    by (cases "storage w (ascii ''token'')") simp_all
  show ?thesis
  proof (cases "truthy_opt orderId")
    case False
    with run sent True show ?thesis
      by (auto simp: OrderDetails_load_no_id requestSent_def emitted_def)
  next
    case True
    then obtain oid where "orderId = Some oid" "truthy oid"
      by (cases orderId) simp_all
    with tok show ?thesis
      by (rule that)
  qed
qed

lemma handlePay_sent:
  assumes run: "handlePay orderId payResp reloadResp (s, w) = (r, s', w')"
    and sent: "requestSent w w'"
  obtains oid tok where "orderId = Some oid" "truthy oid"
    "storage w (ascii ''token'') = Some tok" "truthy tok" "formValid s"
proof -
  have go: "truthy_opt orderId \<and> truthy_opt (storage w (ascii ''token'')) \<and> formValid s"
  proof (rule ccontr)
    assume "\<not> (truthy_opt orderId \<and> truthy_opt (storage w (ascii ''token'')) \<and> formValid s)"
    with run have "\<forall>e \<in> set (emitted w w'). \<not> isRequest e"
      by (rule handlePay_emitted_stopped)
    with sent show False
      by (simp add: requestSent_def)
  qed
  then obtain oid where oid: "orderId = Some oid" "truthy oid"
    by (cases orderId) simp_all
  from go obtain tok where tok: "storage w (ascii ''token'') = Some tok" "truthy tok"
    by (cases "storage w (ascii ''token'')") simp_all
  from oid tok go show ?thesis
    by (simp add: that)
qed

lemma checkout_sent:
  assumes run: "checkout resp (s, w) = (s', w')" and sent: "requestSent w w'"
  shows "c_items s \<noteq> [] \<and> truthy_opt (storage w (ascii ''token'')) \<and> missing s = []"
  using checkout_request_iff [OF run] sent by (simp add: requestSent_def checkout_ready_def)

section \<open>Claims about error responses\<close>

text \<open>
  C3, as the code has it. Whenever one of these handlers has sent its request and the
  response is an error: in \<open>loadOrder\<close>, in the POST of \<open>handlePay\<close> and in \<open>load\<close> of the
  Payments page, a 401 or 403 removes the token from local storage and the handler
  ends by navigating to \<open>/login\<close>; in the refresh that \<open>handlePay\<close> makes after a
  payment that went through, a 401 or 403 removes the token and navigates to \<open>/login\<close>,
  after which \<open>handlePay\<close> navigates on to \<open>/payments\<close>, as it does after every
  successful payment; and in every REST call of the storefront pages (those four,
  \<open>load\<close> of OrderDetails, \<open>checkout\<close>, and the catalogue fetch of the Cart page, which
  always sends its request), every other error response raises
  \<open>error.response.data.detail\<close> as an error notification, or the call's fallback text
  when the detail is missing or empty.
\<close>

theorem C3_error_handling:
  assumes lo: "loadOrder ident (Inl e) (sl, w) = (r1, sl1, w1)"
    and post: "handlePay orderId (Inl e) reloadResp (sp, w) = (r2, sp2, w2)"
    and refresh: "handlePay orderId (Inr res) (Inl e) (sp, w) = (r3, sp3, w3)"
    and history: "Payments_load (Inl e) (sh, w) = (sh4, w4)"
    and details: "OrderDetails_load orderId (Inl e) (sd, w) = (sd5, w5)"
    and order: "checkout (Inl e) (sc, w) = (sc6, w6)"
    and catalogue: "Cart_loadProducts (Inl e) (sk, w) = (sk7, w7)"
  shows "(requestSent w w1 \<and> isAuthStatus e \<longrightarrow> loggedOut w w1)
    \<and> (requestSent w w2 \<and> isAuthStatus e \<longrightarrow> loggedOut w w2)
    \<and> (requestSent w w3 \<and> isAuthStatus e \<longrightarrow> loggedOutThenPayments w w3)
    \<and> (requestSent w w4 \<and> isAuthStatus e \<longrightarrow> loggedOut w w4)
    \<and> (requestSent w w1 \<and> \<not> isAuthStatus e \<longrightarrow>
          notified w w1 (detail_or e (ascii ''Failed to load order'')))
    \<and> (requestSent w w2 \<and> \<not> isAuthStatus e \<longrightarrow>
          notified w w2 (detail_or e (ascii ''Payment failed'')))
    \<and> (requestSent w w3 \<and> \<not> isAuthStatus e \<longrightarrow>
          notified w w3 (detail_or e (ascii ''Failed to load order'')))
    \<and> (requestSent w w4 \<and> \<not> isAuthStatus e \<longrightarrow>
          notified w w4 (detail_or e (ascii ''Failed to load payments'')))
    \<and> (requestSent w w5 \<and> \<not> isAuthStatus e \<longrightarrow>
          notified w w5 (detail_or e (ascii ''Failed to load order'')))
    \<and> (requestSent w w6 \<and> \<not> isAuthStatus e \<longrightarrow>
          notified w w6 (detail_or e (ascii ''Checkout failed'')))
    \<and> requestSent w w7
    \<and> (\<not> isAuthStatus e \<longrightarrow> notified w w7 (detail_or e (ascii ''Failed to load products'')))
    \<and> (\<forall>d. err_detail e = Some d \<and> d \<noteq> [] \<longrightarrow> detail_or e fallback = d)
    \<and> (err_detail e = None \<or> err_detail e = Some [] \<longrightarrow> detail_or e fallback = fallback)"
proof -
  have c1: "loggedOut w w1" if s: "requestSent w w1" and a: "isAuthStatus e"
  proof -
    from lo s obtain tok where tok: "storage w (ascii ''token'') = Some tok" "truthy tok"
      by (rule loadOrder_sent)
    from lo show ?thesis
      by (auto simp: loggedOut_def endsWith_def emitted_def loadOrder_auth [OF tok a])
  qed
  have c2: "loggedOut w w2" if s: "requestSent w w2" and a: "isAuthStatus e"
  proof -
    from post s obtain oid tok where p: "orderId = Some oid" "truthy oid"
      "storage w (ascii ''token'') = Some tok" "truthy tok" "formValid sp"
      by (rule handlePay_sent)
    from post show ?thesis
      by (auto simp: p(1) loggedOut_def endsWith_def emitted_def
          handlePay_auth [OF p(2) p(3) p(4) p(5) a])
  qed
  have c3: "loggedOutThenPayments w w3" if s: "requestSent w w3" and a: "isAuthStatus e"
  proof -
    from refresh s obtain oid tok where p: "orderId = Some oid" "truthy oid"
      "storage w (ascii ''token'') = Some tok" "truthy tok" "formValid sp"
      by (rule handlePay_sent)
    from refresh show ?thesis
      by (auto simp: p(1) loggedOutThenPayments_def endsWith_def emitted_def
          handlePay_reload_auth [OF p(2) p(3) p(4) p(5) a])
  qed
  have c4: "loggedOut w w4" if s: "requestSent w w4" and a: "isAuthStatus e"
  proof -
    from history s obtain tok where tok: "storage w (ascii ''token'') = Some tok" "truthy tok"
      by (rule Payments_load_sent)
    from history show ?thesis
      by (auto simp: loggedOut_def endsWith_def emitted_def Payments_load_auth [OF tok a])
  qed
  have n1: "notified w w1 (detail_or e (ascii ''Failed to load order''))"
    if s: "requestSent w w1" and a: "\<not> isAuthStatus e"
  proof -
    from lo s obtain tok where tok: "storage w (ascii ''token'') = Some tok" "truthy tok"
      by (rule loadOrder_sent)
    from lo show ?thesis
      by (auto simp: notified_def emitted_def loadOrder_other [OF tok a])
  qed
  have n2: "notified w w2 (detail_or e (ascii ''Payment failed''))"
    if s: "requestSent w w2" and a: "\<not> isAuthStatus e"
  proof -
    from post s obtain oid tok where p: "orderId = Some oid" "truthy oid"
      "storage w (ascii ''token'') = Some tok" "truthy tok" "formValid sp"
      by (rule handlePay_sent)
    from post show ?thesis
      by (auto simp: p(1) notified_def emitted_def handlePay_other [OF p(2) p(3) p(4) p(5) a])
  qed
  have n3: "notified w w3 (detail_or e (ascii ''Failed to load order''))"
    if s: "requestSent w w3" and a: "\<not> isAuthStatus e"
  proof -
    from refresh s obtain oid tok where p: "orderId = Some oid" "truthy oid"
      "storage w (ascii ''token'') = Some tok" "truthy tok" "formValid sp"
      by (rule handlePay_sent)
    from refresh show ?thesis
      by (auto simp: p(1) notified_def emitted_def
          handlePay_reload_other [OF p(2) p(3) p(4) p(5) a])
  qed
  have n4: "notified w w4 (detail_or e (ascii ''Failed to load payments''))"
    if s: "requestSent w w4" and a: "\<not> isAuthStatus e"
  proof -
    from history s obtain tok where tok: "storage w (ascii ''token'') = Some tok" "truthy tok"
      by (rule Payments_load_sent)
    from history show ?thesis
      by (auto simp: notified_def emitted_def Payments_load_other [OF tok a])
  qed
  have n5: "notified w w5 (detail_or e (ascii ''Failed to load order''))"
    if s: "requestSent w w5"
  proof -
    from details s obtain tok oid where p: "storage w (ascii ''token'') = Some tok" "truthy tok"
      "orderId = Some oid" "truthy oid"
      by (rule OrderDetails_load_sent)
    from details show ?thesis
      by (auto simp: p(3) notified_def emitted_def OrderDetails_load_error [OF p(1) p(2) p(4)])
  qed
  have n6: "notified w w6 (detail_or e (ascii ''Checkout failed''))"
    if s: "requestSent w w6"
  proof -
    from checkout_sent [OF order s] have p: "c_items sc \<noteq> []"
      "truthy_opt (storage w (ascii ''token''))" "missing sc = []"
      by simp_all
    from order show ?thesis
      by (auto simp: notified_def emitted_def checkout_failed [OF p])
  qed
  have s7: "requestSent w w7"
    using catalogue by (auto simp: requestSent_def emitted_def Cart_loadProducts_error)
  have n7: "notified w w7 (detail_or e (ascii ''Failed to load products''))"
    using catalogue by (auto simp: notified_def emitted_def Cart_loadProducts_error)
  have d1: "\<forall>d. err_detail e = Some d \<and> d \<noteq> [] \<longrightarrow> detail_or e fallback = d"
    by (simp add: detail_or_def truthy_def)
  have d2: "err_detail e = None \<or> err_detail e = Some [] \<longrightarrow> detail_or e fallback = fallback"
    by (auto simp: detail_or_def truthy_def)
  from c1 c2 c3 c4 n1 n2 n3 n4 n5 n6 s7 n7 d1 d2 show ?thesis
    by blast
qed


theorem C3_error_handling_witness:
  "isAuthStatus ex_error_401
   \<and> requestSent ex_world
       (snd (snd (loadOrder (ascii ''7'') (Inl ex_error_401) (ex_pay_state, ex_world))))
   \<and> loggedOut ex_world
       (snd (snd (loadOrder (ascii ''7'') (Inl ex_error_401) (ex_pay_state, ex_world))))
   \<and> loggedOut ex_world
       (snd (snd (handlePay (Some (ascii ''7'')) (Inl ex_error_401) (Inr ex_order)
                    (ex_pay_state, ex_world))))
   \<and> loggedOutThenPayments ex_world
       (snd (snd (handlePay (Some (ascii ''7'')) (Inr ex_pay_result) (Inl ex_error_401)
                    (ex_pay_state, ex_world))))
   \<and> loggedOut ex_world (snd (Payments_load (Inl ex_error_401) (ex_history_state, ex_world)))
   \<and> \<not> isAuthStatus ex_error_400
   \<and> notified ex_world
       (snd (snd (loadOrder (ascii ''7'') (Inl ex_error_400) (ex_pay_state, ex_world))))
       (ascii ''Out of stock'')
   \<and> notified ex_world
       (snd (snd (handlePay (Some (ascii ''7'')) (Inl ex_error_400) (Inr ex_order)
                    (ex_pay_state, ex_world))))
       (ascii ''Out of stock'')
   \<and> notified ex_world
       (snd (snd (handlePay (Some (ascii ''7'')) (Inr ex_pay_result) (Inl ex_error_400)
                    (ex_pay_state, ex_world))))
       (ascii ''Out of stock'')
   \<and> notified ex_world (snd (Payments_load (Inl ex_error_400) (ex_history_state, ex_world)))
       (ascii ''Out of stock'')
   \<and> notified ex_world
       (snd (OrderDetails_load (Some (ascii ''7'')) (Inl ex_error_400) (ex_od_state, ex_world)))
       (ascii ''Out of stock'')
   \<and> notified ex_world (snd (checkout (Inl ex_error_400) (ex_cart_ready, ex_world)))
       (ascii ''Out of stock'')
   \<and> c_productsById ex_cart_state = Map.empty
   \<and> requestSent ex_world (snd (Cart_loadProducts (Inl ex_error_network) (ex_cart_state, ex_world)))
   \<and> notified ex_world (snd (Cart_loadProducts (Inl ex_error_network) (ex_cart_state, ex_world)))
       (ascii ''Failed to load products'')"
proof -
  have t3: "x = (fst x, fst (snd x), snd (snd x))" for x :: "'a \<times> 'b \<times> 'c"
    by simp
  have t2: "x = (fst x, snd x)" for x :: "'a \<times> 'b"
    by simp
  note c3 = C3_error_handling [OF t3 t3 t3 t2 t2 t2 t2]
  have t7: "truthy (ascii ''7'')"
    by (simp add: truthy_def ascii_def)
  have valid: "formValid ex_pay_state"
    by (simp add: formValid_iff ex_pay_state_def isValidPhone_count digitCount_def
        trim_def isWhiteSpace_def isDigit_def ascii_def)
  have items: "c_items ex_cart_ready \<noteq> []"
    by (simp add: ex_cart_ready_items)
  have tok: "truthy_opt (storage ex_world (ascii ''token''))"
    by (simp add: ex_token ex_token_truthy)
  have a401: "isAuthStatus ex_error_401"
    by (simp add: isAuthStatus_def ex_error_401_def)
  have a400: "\<not> isAuthStatus ex_error_400"
    by (simp add: isAuthStatus_def ex_error_400_def)
  have anet: "\<not> isAuthStatus ex_error_network"
    by (simp add: isAuthStatus_def ex_error_network_def)
  have sent_lo: "requestSent ex_world
      (snd (snd (loadOrder (ascii ''7'') (Inl e) (ex_pay_state, ex_world))))" for e
    by (cases "isAuthStatus e")
      (simp_all add: requestSent_def emitted_def
        loadOrder_auth [OF ex_token ex_token_truthy] loadOrder_other [OF ex_token ex_token_truthy])
  have sent_post: "requestSent ex_world
      (snd (snd (handlePay (Some (ascii ''7'')) (Inl e) (Inr ex_order) (ex_pay_state, ex_world))))"
    for e
    by (cases "isAuthStatus e")
      (simp_all add: requestSent_def emitted_def payRequest_def
        handlePay_auth [OF t7 ex_token ex_token_truthy valid]
        handlePay_other [OF t7 ex_token ex_token_truthy valid])
  have sent_refresh: "requestSent ex_world
      (snd (snd (handlePay (Some (ascii ''7'')) (Inr ex_pay_result) (Inl e)
         (ex_pay_state, ex_world))))" for e
    by (cases "isAuthStatus e")
      (simp_all add: requestSent_def emitted_def payRequest_def
        handlePay_reload_auth [OF t7 ex_token ex_token_truthy valid]
        handlePay_reload_other [OF t7 ex_token ex_token_truthy valid])
  have sent_history: "requestSent ex_world
      (snd (Payments_load (Inl e) (ex_history_state, ex_world)))" for e
    by (cases "isAuthStatus e")
      (simp_all add: requestSent_def emitted_def
        Payments_load_auth [OF ex_token ex_token_truthy]
        Payments_load_other [OF ex_token ex_token_truthy])
  have sent_details: "requestSent ex_world
      (snd (OrderDetails_load (Some (ascii ''7'')) (Inl e) (ex_od_state, ex_world)))" for e
    by (simp add: requestSent_def emitted_def
        OrderDetails_load_error [OF ex_token ex_token_truthy t7])
  have sent_order: "requestSent ex_world
      (snd (checkout (Inl e) (ex_cart_ready, ex_world)))" for e
    by (simp add: requestSent_def emitted_def
        checkout_failed [OF items tok ex_cart_ready_missing])
  have d400: "detail_or ex_error_400 fb = ascii ''Out of stock''" for fb
    using c3 [where e = ex_error_400 and fallback = fb]
    by (simp add: ex_error_400_def ascii_def)
  have dnet: "detail_or ex_error_network fb = fb" for fb
    using c3 [where e = ex_error_network and fallback = fb]
    by (simp add: ex_error_network_def)
  note out = c3 [where e = ex_error_401 and w = ex_world and ident = "ascii ''7''"
      and sl = ex_pay_state and sp = ex_pay_state and orderId = "Some (ascii ''7'')"
      and reloadResp = "Inr ex_order" and res = ex_pay_result and sh = ex_history_state
      and sd = ex_od_state and sc = ex_cart_ready and sk = ex_cart_state
      and fallback = "[]"]
  from out
  have auth: "loggedOut ex_world
       (snd (snd (loadOrder (ascii ''7'') (Inl ex_error_401) (ex_pay_state, ex_world))))
   \<and> loggedOut ex_world
       (snd (snd (handlePay (Some (ascii ''7'')) (Inl ex_error_401) (Inr ex_order)
                    (ex_pay_state, ex_world))))
   \<and> loggedOutThenPayments ex_world
       (snd (snd (handlePay (Some (ascii ''7'')) (Inr ex_pay_result) (Inl ex_error_401)
                    (ex_pay_state, ex_world))))
   \<and> loggedOut ex_world (snd (Payments_load (Inl ex_error_401) (ex_history_state, ex_world)))"
    by (simp add: a401 sent_lo sent_post sent_refresh sent_history)
  note oth = c3 [where e = ex_error_400 and w = ex_world and ident = "ascii ''7''"
      and sl = ex_pay_state and sp = ex_pay_state and orderId = "Some (ascii ''7'')"
      and reloadResp = "Inr ex_order" and res = ex_pay_result and sh = ex_history_state
      and sd = ex_od_state and sc = ex_cart_ready and sk = ex_cart_state
      and fallback = "[]"]
  from oth
  have other: "notified ex_world
       (snd (snd (loadOrder (ascii ''7'') (Inl ex_error_400) (ex_pay_state, ex_world))))
       (ascii ''Out of stock'')
   \<and> notified ex_world
       (snd (snd (handlePay (Some (ascii ''7'')) (Inl ex_error_400) (Inr ex_order)
                    (ex_pay_state, ex_world))))
       (ascii ''Out of stock'')
   \<and> notified ex_world
       (snd (snd (handlePay (Some (ascii ''7'')) (Inr ex_pay_result) (Inl ex_error_400)
                    (ex_pay_state, ex_world))))
       (ascii ''Out of stock'')
   \<and> notified ex_world (snd (Payments_load (Inl ex_error_400) (ex_history_state, ex_world)))
       (ascii ''Out of stock'')
   \<and> notified ex_world
       (snd (OrderDetails_load (Some (ascii ''7'')) (Inl ex_error_400) (ex_od_state, ex_world)))
       (ascii ''Out of stock'')
   \<and> notified ex_world (snd (checkout (Inl ex_error_400) (ex_cart_ready, ex_world)))
       (ascii ''Out of stock'')"
    by (simp add: d400 a400 sent_lo sent_post sent_refresh sent_history sent_details
        sent_order)
  note net = c3 [where e = ex_error_network and w = ex_world and ident = "ascii ''7''"
      and sl = ex_pay_state and sp = ex_pay_state and orderId = "Some (ascii ''7'')"
      and reloadResp = "Inr ex_order" and res = ex_pay_result and sh = ex_history_state
      and sd = ex_od_state and sc = ex_cart_ready and sk = ex_cart_state
      and fallback = "[]"]
  from net
  have cat: "requestSent ex_world
       (snd (Cart_loadProducts (Inl ex_error_network) (ex_cart_state, ex_world)))
   \<and> notified ex_world (snd (Cart_loadProducts (Inl ex_error_network) (ex_cart_state, ex_world)))
       (ascii ''Failed to load products'')"
    by (simp add: dnet anet)
  have unloaded: "c_productsById ex_cart_state = Map.empty"
    by (simp add: ex_cart_state_def)
  from a401 sent_lo [of ex_error_401] auth a400 other unloaded cat show ?thesis
    by (intro conjI) simp_all
qed


text \<open>
  C3 as stated fails for \<open>load\<close> of the OrderDetails page, whose \<open>catch\<close> has no branch
  for 401 and 403: on a 401 response the token stays in local storage and the page
  does not navigate; it raises the detail as a notification like for any other error.
\<close>

theorem C3_counterexample:
  "isAuthStatus ex_error_401
   \<and> storage (snd (OrderDetails_load (Some (ascii ''7'')) (Inl ex_error_401)
                   (ex_od_state, ex_world))) (ascii ''token'') = Some (ascii ''t0k3n'')
   \<and> trace (snd (OrderDetails_load (Some (ascii ''7'')) (Inl ex_error_401)
                   (ex_od_state, ex_world))) =
       [GetItem (ascii ''token''),
        HttpGet orderApi (ascii ''/orders/7'') None,
        ToastError (ascii ''Not authenticated'')]"
proof -
  have t7: "truthy (ascii ''7'')"
    by (simp add: truthy_def ascii_def)
  have d: "detail_or ex_error_401 (ascii ''Failed to load order'') = ascii ''Not authenticated''"
    by (simp add: detail_or_def ex_error_401_def truthy_def ascii_def)
  have a: "isAuthStatus ex_error_401"
    by (simp add: isAuthStatus_def ex_error_401_def)
  have tr: "trace ex_world = []"
    by (simp add: ex_world_def)
  from a show ?thesis
    by (simp add: OrderDetails_load_error [OF ex_token ex_token_truthy t7] d ex_token tr)
      (simp add: ascii_def)
qed


end
